theory Spec2Isabelle
  imports Complex_Main "HOL-Library.Word"
begin

section \<open>Common data\<close>

type_synonym u8 = "8 word"
type_synonym u32 = "32 word"

text \<open>The connection states of a session and of the script client.\<close>

datatype ConnectionState = DISCONNECTED | CONNECTED | STARTED | PAUSED

text \<open>
  The C++ exceptions that the modelled code can raise: \<open>std::out_of_range\<close> (from
  \<open>std::string::at\<close> and \<open>std::stoi\<close>), \<open>std::invalid_argument\<close>,
  \<open>std::range_error\<close>, and any \<open>std::exception\<close> coming out of the RTDE session
  (a transport or protocol failure). Their message texts are not modelled.
  \<open>Undefined\<close> is not an exception: it marks a run that reaches undefined behaviour.
\<close>

datatype exn = OutOfRange | InvalidArgument | RangeError | SessionError | Undefined

text \<open>
  The process's two console streams, as the list of items written so far: a fixed message,
  or the \<open>what()\<close> text of a caught exception.
\<close>

datatype out_item = Msg string | What exn

record console =
  cout :: "out_item list"
  cerr :: "out_item list"

section \<open>std::string operations used by the script client\<close>

text \<open>
  \<open>size_t\<close> is taken to be 64 bits wide. Positions are natural numbers;
  \<open>std::string::npos\<close> is the largest \<open>size_t\<close>. A \<open>std::string\<close> is
  always shorter than \<open>npos\<close>.
\<close>

definition npos :: nat where
  "npos = 2 ^ 64 - 1"

primrec index_of :: "char \<Rightarrow> string \<Rightarrow> nat option" where
  "index_of c [] = None"
| "index_of c (x # xs) = (if x = c then Some 0 else map_option Suc (index_of c xs))"

text \<open>\<open>s.find(c, pos)\<close> for a one-character pattern: the first index at or after
  \<open>pos\<close> that holds \<open>c\<close>, or \<open>npos\<close>.\<close>

definition str_find :: "string \<Rightarrow> char \<Rightarrow> nat \<Rightarrow> nat" where
  "str_find s c pos =
     (if pos \<le> length s
      then (case index_of c (drop pos s) of None \<Rightarrow> npos | Some i \<Rightarrow> pos + i)
      else npos)"

text \<open>\<open>s.at(i)\<close>: bounds-checked read.\<close>

definition str_at :: "string \<Rightarrow> nat \<Rightarrow> exn + char" where
  "str_at s i = (if i < length s then Inr (s ! i) else Inl OutOfRange)"

text \<open>\<open>s.erase(pos, count)\<close> for \<open>pos \<le> size\<close>: removes
  \<open>min(count, size - pos)\<close> characters.\<close>

definition str_erase :: "string \<Rightarrow> nat \<Rightarrow> nat \<Rightarrow> string" where
  "str_erase s pos cnt = take pos s @ drop (pos + min cnt (length s - pos)) s"

text \<open>\<open>s.insert(pos, t)\<close> for \<open>pos \<le> size\<close>.\<close>

definition str_insert :: "string \<Rightarrow> nat \<Rightarrow> string \<Rightarrow> string" where
  "str_insert s pos t = take pos s @ t @ drop pos s"

definition isspace :: "char \<Rightarrow> bool" where
  "isspace c = (c \<in> set [CHR '' '', CHR 0x09, CHR 0x0A, CHR 0x0B, CHR 0x0C, CHR 0x0D])"

definition isdigit :: "char \<Rightarrow> bool" where
  "isdigit c = ((48::nat) \<le> of_char c \<and> of_char c \<le> (57::nat))"

definition digit_val :: "char \<Rightarrow> int" where
  "digit_val c = int (of_char c) - 48"

text \<open>
  \<open>std::stoi(str)\<close> in base 10: skip leading white space, read an optional sign and
  the longest run of digits; no digit raises \<open>std::invalid_argument\<close>, a value that
  does not fit an \<open>int\<close> raises \<open>std::out_of_range\<close>.
\<close>

definition stoi :: "string \<Rightarrow> exn + int" where
  "stoi str =
     (let t = dropWhile isspace str;
          neg = (t \<noteq> [] \<and> hd t = CHR ''-'');
          u = (if t \<noteq> [] \<and> (hd t = CHR ''-'' \<or> hd t = CHR ''+'') then tl t else t);
          ds = takeWhile isdigit u;
          v = foldl (\<lambda>a d. 10 * a + digit_val d) 0 ds;
          r = (if neg then - v else v)
      in if ds = [] then Inl InvalidArgument
         else if r < - (2 ^ 31) \<or> 2 ^ 31 \<le> r then Inl OutOfRange
         else Inr r)"

section \<open>ScriptClient\<close>

record ScriptClient = console +
  major_control_version :: u32
  minor_control_version :: u32
  conn_state :: ConnectionState
  script_file_name :: string
  socket :: "string list"

text \<open>\<open>socket\<close> is the list of buffers handed to \<open>boost::asio::write\<close> so far,
  oldest first; the write itself is taken to deliver its whole buffer.\<close>

definition isConnected :: "ScriptClient \<Rightarrow> bool" where
  "isConnected c = (conn_state c = CONNECTED)"

definition sendScriptCommand :: "string \<Rightarrow> ScriptClient \<Rightarrow> bool \<times> ScriptClient" where
  "sendScriptCommand cmd_str c =
     (if isConnected c \<and> cmd_str \<noteq> []
      then (True, c\<lparr>socket := socket c @ [cmd_str]\<rparr>)
      else (False,
            c\<lparr>cerr := cerr c @
               [Msg ''Please connect to the controller before calling sendScriptCommand()'']\<rparr>))"

subsection \<open>sendScript: the version pre-processor\<close>

text \<open>How the \<open>while\<close> loop of \<open>sendScript\<close> ends: an exception leaves the function,
  the \<open>else\<close> branch returns false, or the loop finishes with the processed text.\<close>

datatype loop_result = Raised exn | ReturnFalse | Done string

text \<open>
  The loop of \<open>sendScript\<close>, one call per evaluation of the loop condition with
  \<open>n = ur_script.find("$")\<close>. The characters read are those at \<open>n + 2\<close> and
  \<open>n + 3\<close>. The count of the line erasure is computed in \<open>size_t\<close>, so it wraps
  around modulo \<open>2 ^ 64\<close>. The loop need not end, hence the result is an option.
\<close>

partial_function (option) sendScript_loop :: "u32 \<Rightarrow> u32 \<Rightarrow> string \<Rightarrow> loop_result option" where
  "sendScript_loop major minor ur_script =
     (let n = str_find ur_script CHR ''$'' 0 in
      if n \<noteq> npos then
        (case str_at ur_script (n + 2) of
           Inl e \<Rightarrow> Some (Raised e)
         | Inr c2 \<Rightarrow>
        (case str_at ur_script (n + 3) of
           Inl e \<Rightarrow> Some (Raised e)
         | Inr c3 \<Rightarrow>
            (let major_str = [c2]; minor_str = [c3] in
             if major_str \<noteq> [] \<and> minor_str \<noteq> [] \<and> major_str \<noteq> '' '' \<and> minor_str \<noteq> '' ''
             then
               (case stoi major_str of
                  Inl e \<Rightarrow> Some (Raised e)
                | Inr mj \<Rightarrow>
               (case stoi minor_str of
                  Inl e \<Rightarrow> Some (Raised e)
                | Inr mn \<Rightarrow>
                   (let major_version_needed = (word_of_int mj :: u32);
                        minor_version_needed = (word_of_int mn :: u32) in
                    if major > major_version_needed \<or>
                       (major = major_version_needed \<and> minor \<ge> minor_version_needed)
                    then sendScript_loop major minor
                           (str_insert (str_erase ur_script n 4) n ''    '')
                    else sendScript_loop major minor
                           (str_erase ur_script n
                              ((str_find ur_script CHR 0x0A n - n + 1) mod 2 ^ 64)))))
             else Some ReturnFalse)))
      else Some (Done ur_script))"

declare sendScript_loop.simps [code]

text \<open>
  \<open>sendScript()\<close>. \<open>loaded\<close> is what \<open>loadScript(script_file_name_, ur_script)\<close>
  would read (\<open>None\<close> when the file cannot be opened) and \<open>UR_SCRIPT\<close> is the
  compiled-in control script; both are parameters. The result is \<open>None\<close> when the loop
  does not end, an exception (\<open>Inl\<close>) or the returned boolean.
\<close>

definition select_script :: "string option \<Rightarrow> string \<Rightarrow> ScriptClient \<Rightarrow> string \<times> ScriptClient" where
  "select_script loaded UR_SCRIPT c =
     (let (ur_script, c1) =
        (if script_file_name c \<noteq> []
         then (case loaded of
                 Some str \<Rightarrow> (str, c)
               | None \<Rightarrow>
                   ([], c\<lparr>cerr := cerr c @
                      [Msg (''There was an error reading the provided script file: '' @
                            script_file_name c),
                       Msg ''Error loading custom script file. Falling back to internal script file.'']\<rparr>))
         else ([], c))
      in (if ur_script = [] then UR_SCRIPT else ur_script, c1))"

definition sendScript :: "string option \<Rightarrow> string \<Rightarrow> ScriptClient \<Rightarrow> ((exn + bool) \<times> ScriptClient) option" where
  "sendScript loaded UR_SCRIPT c =
     (let (ur_script, c1) = select_script loaded UR_SCRIPT c in
      case sendScript_loop (major_control_version c1) (minor_control_version c1) ur_script of
        None \<Rightarrow> None
      | Some (Raised e) \<Rightarrow> Some (Inl e, c1)
      | Some ReturnFalse \<Rightarrow>
          Some (Inr False,
                c1\<lparr>cerr := cerr c1 @
                   [Msg ''Could not read the control version required from the control script!'']\<rparr>)
      | Some (Done text) \<Rightarrow>
          (if isConnected c1 \<and> text \<noteq> []
           then Some (Inr True, c1\<lparr>socket := socket c1 @ [text]\<rparr>)
           else Some (Inr False,
                      c1\<lparr>cerr := cerr c1 @
                         [Msg ''Please connect to the controller before calling sendScript()'']\<rparr>)))"

subsection \<open>Scripts as lists of lines\<close>

text \<open>
  The shape of the control script that the pre-processor is written for: a list of
  lines, each ended by a newline, a line being plain or carrying one marker. A marker is
  the character \<open>$\<close>, one character that is not read, and the two digits of the
  version needed. \<open>expected_line\<close> says in the spec's words what becomes of a
  line: kept, the marker blanked, when the controller's version is at least the version
  needed, and cut from the marker to the end of the line otherwise.
\<close>

datatype script_line = Plain string | Versioned string char nat nat string

definition digit_char :: "nat \<Rightarrow> char" where
  "digit_char d = char_of (48 + d)"

fun render_line :: "script_line \<Rightarrow> string" where
  "render_line (Plain body) = body @ [CHR 0x0A]"
| "render_line (Versioned p x M N body) =
     p @ CHR ''$'' # x # digit_char M # digit_char N # body @ [CHR 0x0A]"

fun wf_line :: "script_line \<Rightarrow> bool" where
  "wf_line (Plain body) = (CHR ''$'' \<notin> set body \<and> CHR 0x0A \<notin> set body)"
| "wf_line (Versioned p x M N body) =
     (CHR ''$'' \<notin> set p \<and> CHR 0x0A \<notin> set p \<and> x \<noteq> CHR 0x0A \<and> M < 10 \<and> N < 10 \<and>
      CHR ''$'' \<notin> set body \<and> CHR 0x0A \<notin> set body)"

definition version_at_least :: "u32 \<Rightarrow> u32 \<Rightarrow> nat \<Rightarrow> nat \<Rightarrow> bool" where
  "version_at_least major minor M N = (unat major > M \<or> (unat major = M \<and> unat minor \<ge> N))"

fun expected_line :: "u32 \<Rightarrow> u32 \<Rightarrow> script_line \<Rightarrow> string" where
  "expected_line major minor (Plain body) = body @ [CHR 0x0A]"
| "expected_line major minor (Versioned p x M N body) =
     (if version_at_least major minor M N then p @ ''    '' @ body @ [CHR 0x0A] else p)"

definition render_script :: "script_line list \<Rightarrow> string" where
  "render_script ls = concat (map render_line ls)"

definition expected_script :: "u32 \<Rightarrow> u32 \<Rightarrow> script_line list \<Rightarrow> string" where
  "expected_script major minor ls = concat (map (expected_line major minor) ls)"

section \<open>The RTDE session\<close>

text \<open>The fields of \<open>RTDE::RobotCommand\<close> that \<open>setStandardDigitalOut\<close> assigns.\<close>

datatype cmd_type =
  NO_CMD | SET_STD_DIGITAL_OUT | SET_TOOL_DIGITAL_OUT | SET_SPEED_SLIDER | SET_STD_ANALOG_OUT

record RobotCommand =
  cmd_type :: cmd_type
  recipe_id :: u8
  std_digital_out_mask :: u8
  std_digital_out :: u8

text \<open>The calls a facade makes on its session, with their arguments.\<close>

datatype rtde_call =
  Connect
| NegotiateProtocolVersion
| GetControllerVersion
| SendOutputSetup "string list" real
| SendInputSetup "string list"
| SendStart
| Send RobotCommand
| ReceiveData
| Disconnect

text \<open>
  The controller, the network and the scheduler, as far as the facades can observe them:
  whether the call number \<open>k\<close> on the session (counted from 0, over all calls)
  raises; the controller version tuple (major, minor, bugfix, build); whether another
  thread has set the stop flag of the receive interface by the time \<open>k\<close> calls
  have been made; and how many times a receive thread that is started when \<open>k\<close>
  calls have been made gets through its loop while the thread that started it sleeps.
\<close>

record env =
  raises :: "nat \<Rightarrow> bool"
  controller_version :: "u32 \<times> u32 \<times> u32 \<times> u32"
  stop_requested :: "nat \<Rightarrow> bool"
  thread_progress :: "nat \<Rightarrow> nat"

text \<open>
  The session object \<open>rtde_\<close>: its connection state and \<open>wire\<close>, the calls made on
  it so far, each with whether it returned normally.
\<close>

record RTDE = console +
  rtde_conn_state :: ConnectionState
  wire :: "(rtde_call \<times> bool) list"

text \<open>
  Modelled from the spec: the class \<open>RTDE\<close> (section 4.2, the session state machine).
  A call either raises, leaving the connection state as it was, or returns and moves the
  session to the state the spec gives: \<open>connect\<close> to CONNECTED, \<open>sendStart\<close> to
  STARTED, \<open>disconnect\<close> to DISCONNECTED from any state, the other calls stay where
  they are. A function returns the pair of its outcome (\<open>Inl\<close> for an exception) and
  the state it leaves behind, which an exception does not undo.
\<close>

definition rtde_invoke ::
  "env \<Rightarrow> rtde_call \<Rightarrow> ConnectionState \<Rightarrow> 'a RTDE_scheme \<Rightarrow> (exn + unit) \<times> 'a RTDE_scheme" where
  "rtde_invoke e call st r =
     (if raises e (length (wire r))
      then (Inl SessionError, r\<lparr>wire := wire r @ [(call, False)]\<rparr>)
      else (Inr (), r\<lparr>rtde_conn_state := st, wire := wire r @ [(call, True)]\<rparr>))"

definition rtde_connect :: "env \<Rightarrow> 'a RTDE_scheme \<Rightarrow> (exn + unit) \<times> 'a RTDE_scheme" where
  "rtde_connect e r = rtde_invoke e Connect CONNECTED r"

definition rtde_negotiateProtocolVersion ::
  "env \<Rightarrow> 'a RTDE_scheme \<Rightarrow> (exn + unit) \<times> 'a RTDE_scheme" where
  "rtde_negotiateProtocolVersion e r = rtde_invoke e NegotiateProtocolVersion (rtde_conn_state r) r"

definition rtde_getControllerVersion ::
  "env \<Rightarrow> 'a RTDE_scheme \<Rightarrow> (exn + u32 \<times> u32 \<times> u32 \<times> u32) \<times> 'a RTDE_scheme" where
  "rtde_getControllerVersion e r =
     (case rtde_invoke e GetControllerVersion (rtde_conn_state r) r of
        (Inl ex, r') \<Rightarrow> (Inl ex, r')
      | (Inr u, r') \<Rightarrow> (Inr (controller_version e), r'))"

definition rtde_sendOutputSetup ::
  "env \<Rightarrow> string list \<Rightarrow> real \<Rightarrow> 'a RTDE_scheme \<Rightarrow> (exn + unit) \<times> 'a RTDE_scheme" where
  "rtde_sendOutputSetup e names frequency r =
     rtde_invoke e (SendOutputSetup names frequency) (rtde_conn_state r) r"

definition rtde_sendInputSetup ::
  "env \<Rightarrow> string list \<Rightarrow> 'a RTDE_scheme \<Rightarrow> (exn + unit) \<times> 'a RTDE_scheme" where
  "rtde_sendInputSetup e names r = rtde_invoke e (SendInputSetup names) (rtde_conn_state r) r"

definition rtde_sendStart :: "env \<Rightarrow> 'a RTDE_scheme \<Rightarrow> (exn + unit) \<times> 'a RTDE_scheme" where
  "rtde_sendStart e r = rtde_invoke e SendStart STARTED r"

definition rtde_send ::
  "env \<Rightarrow> RobotCommand \<Rightarrow> 'a RTDE_scheme \<Rightarrow> (exn + unit) \<times> 'a RTDE_scheme" where
  "rtde_send e cmd r = rtde_invoke e (Send cmd) (rtde_conn_state r) r"

definition rtde_receiveData :: "env \<Rightarrow> 'a RTDE_scheme \<Rightarrow> (exn + unit) \<times> 'a RTDE_scheme" where
  "rtde_receiveData e r = rtde_invoke e ReceiveData (rtde_conn_state r) r"

definition rtde_disconnect :: "'a RTDE_scheme \<Rightarrow> 'a RTDE_scheme" where
  "rtde_disconnect r = r\<lparr>rtde_conn_state := DISCONNECTED, wire := wire r @ [(Disconnect, True)]\<rparr>"

definition rtde_isConnected :: "'a RTDE_scheme \<Rightarrow> bool" where
  "rtde_isConnected r = (rtde_conn_state r \<noteq> DISCONNECTED)"

text \<open>Sequencing of calls that may raise: the first exception ends the sequence.\<close>

definition bindE ::
  "('s \<Rightarrow> (exn + 'a) \<times> 's) \<Rightarrow> ('a \<Rightarrow> 's \<Rightarrow> (exn + 'b) \<times> 's) \<Rightarrow> 's \<Rightarrow> (exn + 'b) \<times> 's" where
  "bindE m f s = (case m s of (Inl ex, s') \<Rightarrow> (Inl ex, s') | (Inr a, s') \<Rightarrow> f a s')"

definition returnE :: "'a \<Rightarrow> 's \<Rightarrow> (exn + 'a) \<times> 's" where
  "returnE a s = (Inr a, s)"

definition CB3_MAJOR_VERSION :: u32 where
  "CB3_MAJOR_VERSION = 3"

text \<open>\<open>std::get<MAJOR_VERSION>(controller_version)\<close> with \<open>MAJOR_VERSION\<close> defined as 0.\<close>

definition get_MAJOR_VERSION :: "u32 \<times> u32 \<times> u32 \<times> u32 \<Rightarrow> u32" where
  "get_MAJOR_VERSION v = fst v"

section \<open>RTDEIOInterface\<close>

text \<open>
  The facade's state is its session; \<open>rtde_\<close> is never null once the constructor has
  run, so the null checks of the source are always passed. The fresh \<open>RobotState\<close>
  and the sleeps are left out.
\<close>

definition RTDEIOInterface_setup :: "env \<Rightarrow> RTDE \<Rightarrow> (exn + unit) \<times> RTDE" where
  "RTDEIOInterface_setup e =
     bindE (rtde_connect e) (\<lambda>_.
     bindE (rtde_negotiateProtocolVersion e) (\<lambda>_.
     bindE (rtde_getControllerVersion e) (\<lambda>controller_version.
     let major_version = get_MAJOR_VERSION controller_version;
         frequency = (if major_version > CB3_MAJOR_VERSION then 500 else 125) in
     bindE (rtde_sendOutputSetup e [''robot_status_bits'', ''output_int_register_0''] frequency) (\<lambda>_.
     bindE (rtde_sendInputSetup e [''input_int_register_20'']) (\<lambda>_.
     bindE (rtde_sendInputSetup e
              [''input_int_register_20'', ''standard_digital_output_mask'',
               ''standard_digital_output'']) (\<lambda>_.
     bindE (rtde_sendInputSetup e
              [''input_int_register_20'', ''tool_digital_output_mask'',
               ''tool_digital_output'']) (\<lambda>_.
     bindE (rtde_sendInputSetup e
              [''input_int_register_20'', ''speed_slider_mask'', ''speed_slider_fraction'']) (\<lambda>_.
     bindE (rtde_sendInputSetup e
              [''input_int_register_2'', ''standard_analog_output_mask'',
               ''standard_analog_output_type'', ''standard_analog_output_0'',
               ''standard_analog_output_1'']) (\<lambda>_.
     rtde_sendStart e)))))))))"

text \<open>The constructor: a new session, then the setup sequence.\<close>

definition RTDEIOInterface_ctor :: "env \<Rightarrow> (exn + unit) \<times> RTDE" where
  "RTDEIOInterface_ctor e =
     RTDEIOInterface_setup e
       \<lparr>cout = [], cerr = [], rtde_conn_state = DISCONNECTED, wire = []\<rparr>"

definition RTDEIOInterface_reconnect :: "env \<Rightarrow> RTDE \<Rightarrow> (exn + bool) \<times> RTDE" where
  "RTDEIOInterface_reconnect e =
     bindE (rtde_connect e) (\<lambda>_.
     bindE (rtde_negotiateProtocolVersion e) (\<lambda>_.
     bindE (rtde_getControllerVersion e) (\<lambda>controller_version.
     let major_version = get_MAJOR_VERSION controller_version;
         frequency = (if major_version > CB3_MAJOR_VERSION then 500 else 125) in
     bindE (rtde_sendOutputSetup e [''robot_status_bits'', ''output_int_register_0''] frequency) (\<lambda>_.
     bindE (rtde_sendInputSetup e [''input_int_register_20'']) (\<lambda>_.
     bindE (rtde_sendInputSetup e
              [''input_int_register_20'', ''standard_digital_output_mask'',
               ''standard_digital_output'']) (\<lambda>_.
     bindE (rtde_sendInputSetup e
              [''input_int_register_20'', ''tool_digital_output_mask'',
               ''tool_digital_output'']) (\<lambda>_.
     bindE (rtde_sendInputSetup e
              [''input_int_register_20'', ''speed_slider_mask'', ''speed_slider_fraction'']) (\<lambda>_.
     bindE (rtde_sendInputSetup e
              [''input_int_register_20'', ''standard_analog_output_mask'',
               ''standard_analog_output_type'', ''standard_analog_output_0'',
               ''standard_analog_output_1'']) (\<lambda>_.
     bindE (rtde_sendStart e) (\<lambda>_.
     returnE True))))))))))"

subsection \<open>verifyValueIsWithin\<close>

text \<open>
  A \<open>double\<close> as far as comparisons see it: a NaN, an infinity or a real number.
  \<open>double_le\<close> is the IEEE comparison \<open>\<le>\<close>, false whenever an operand is a NaN;
  \<open>std::islessequal\<close> and \<open>std::isgreaterequal\<close> are that comparison without the
  floating-point exception.
\<close>

datatype double = NaN | NegInf | Finite real | PosInf

fun double_le :: "double \<Rightarrow> double \<Rightarrow> bool" where
  "double_le NaN y = False"
| "double_le x NaN = False"
| "double_le NegInf y = True"
| "double_le x PosInf = True"
| "double_le (Finite x) (Finite y) = (x \<le> y)"
| "double_le x y = False"

definition isnan :: "double \<Rightarrow> bool" where
  "isnan x = (x = NaN)"

definition islessequal :: "double \<Rightarrow> double \<Rightarrow> bool" where
  "islessequal x y = double_le x y"

definition isgreaterequal :: "double \<Rightarrow> double \<Rightarrow> bool" where
  "isgreaterequal x y = double_le y x"

definition verifyValueIsWithin ::
  "double \<Rightarrow> double \<Rightarrow> double \<Rightarrow> RTDE \<Rightarrow> (exn + unit) \<times> RTDE" where
  "verifyValueIsWithin val min_v max_v r =
     (if isnan min_v \<or> isnan max_v then (Inl InvalidArgument, r)
      else if isnan val then (Inl InvalidArgument, r)
      else if \<not> (isgreaterequal val min_v \<and> islessequal val max_v) then (Inl RangeError, r)
      else (Inr (), r))"

subsection \<open>sendCommand and setStandardDigitalOut\<close>

text \<open>
  \<open>sendCommand\<close>. After the \<open>catch\<close> block the function has no return
  statement: when control reaches its end, also after the recursive call has returned,
  the behaviour is undefined, and the outcome is \<open>Undefined\<close> together with the
  state reached at that point. An outer call whose inner call has ended in an exception
  or in undefined behaviour ends the same way. The recursion has no bound, so the whole
  result is an option: \<open>None\<close> when the call never returns.
\<close>

partial_function (option) sendCommand ::
  "env \<Rightarrow> RobotCommand \<Rightarrow> RTDE \<Rightarrow> ((exn + bool) \<times> RTDE) option" where
  "sendCommand e cmd r =
     (case rtde_send e cmd r of
        (Inr u, r1) \<Rightarrow> Some (Inr True, r1)
      | (Inl ex, r1) \<Rightarrow>
          (let r2 = r1\<lparr>cout := cout r1 @ [Msg ''RTDEIOInterface: Lost connection to robot...''],
                      cerr := cerr r1 @ [What ex]\<rparr>;
               r3 = (if rtde_isConnected r2 then rtde_disconnect r2 else r2)
           in if \<not> rtde_isConnected r3
              then (let r4 = r3\<lparr>cout := cout r3 @
                               [Msg ''RTDEIOInterface: Robot is disconnected, reconnecting...'']\<rparr>
                    in case RTDEIOInterface_reconnect e r4 of
                         (Inl ex', r5) \<Rightarrow> Some (Inl ex', r5)
                       | (Inr b, r5) \<Rightarrow>
                           Option.bind (sendCommand e cmd r5)
                             (\<lambda>res. case res of
                                (Inl ex'', r6) \<Rightarrow> Some (Inl ex'', r6)
                              | (Inr b', r6) \<Rightarrow> Some (Inl Undefined, r6)))
              else Some (Inl Undefined, r3)))"

declare sendCommand.simps [code]

text \<open>
  \<open>static_cast<uint8_t>(std::pow(2.0, output_id))\<close>: the power of two is exact in a
  \<open>double\<close>; the conversion is defined only when the value fits in eight bits.
\<close>

definition pow2_as_uint8 :: "u8 \<Rightarrow> u8 option" where
  "pow2_as_uint8 output_id = (if unat output_id < 8 then Some (2 ^ unat output_id) else None)"

definition setStandardDigitalOut ::
  "env \<Rightarrow> u8 \<Rightarrow> bool \<Rightarrow> RTDE \<Rightarrow> ((exn + bool) \<times> RTDE) option" where
  "setStandardDigitalOut e output_id signal_level r =
     (case pow2_as_uint8 output_id of
        None \<Rightarrow> Some (Inl Undefined, r)
      | Some p \<Rightarrow>
          sendCommand e
            (if signal_level
             then \<lparr>cmd_type = SET_STD_DIGITAL_OUT, recipe_id = 2,
                   std_digital_out_mask = p, std_digital_out = p\<rparr>
             else \<lparr>cmd_type = SET_STD_DIGITAL_OUT, recipe_id = 2,
                   std_digital_out_mask = p, std_digital_out = 0\<rparr>)
            r)"

section \<open>RTDEReceiveInterface\<close>

text \<open>
  The interface extends its session by its own fields. \<open>threads_started\<close> counts the
  receive threads created. As in the I/O facade, \<open>rtde_\<close> is never null once the
  constructor has run; the fresh \<open>RobotState\<close> is left out.
\<close>

record RTDEReceiveInterface = RTDE +
  variables :: "string list"
  stop_thread :: bool
  threads_started :: nat

definition default_variables :: "string list" where
  "default_variables =
     [''timestamp'', ''target_q'', ''target_qd'', ''target_qdd'', ''target_current'',
      ''target_moment'', ''actual_q'', ''actual_qd'', ''actual_current'',
      ''joint_control_output'', ''actual_TCP_pose'', ''actual_TCP_speed'',
      ''actual_TCP_force'', ''target_TCP_pose'', ''target_TCP_speed'',
      ''actual_digital_input_bits'', ''joint_temperatures'', ''actual_execution_time'',
      ''robot_mode'', ''joint_mode'', ''safety_mode'', ''actual_tool_accelerometer'',
      ''speed_scaling'', ''target_speed_fraction'', ''actual_momentum'',
      ''actual_main_voltage'', ''actual_robot_voltage'', ''actual_robot_current'',
      ''actual_joint_voltage'', ''actual_digital_output_bits'', ''runtime_state'',
      ''standard_analog_input0'', ''standard_analog_input1'', ''standard_analog_output0'',
      ''standard_analog_output1'', ''robot_status_bits'', ''output_int_register_0'',
      ''output_int_register_1'', ''output_int_register_2'', ''output_int_register_3'',
      ''output_int_register_4'', ''output_int_register_5'', ''output_int_register_6'',
      ''output_int_register_7'', ''output_double_register_0'', ''output_double_register_1'',
      ''output_double_register_2'', ''output_double_register_3'',
      ''output_double_register_4'', ''output_double_register_5'',
      ''output_double_register_6'', ''output_double_register_7'']"

definition setupRecipes ::
  "env \<Rightarrow> real \<Rightarrow> RTDEReceiveInterface \<Rightarrow> (exn + bool) \<times> RTDEReceiveInterface" where
  "setupRecipes e frequency s =
     (let s1 = (if variables s = [] then s\<lparr>variables := default_variables\<rparr> else s) in
      bindE (rtde_sendOutputSetup e (variables s1) frequency) (\<lambda>_. returnE True) s1)"

definition start_thread :: "RTDEReceiveInterface \<Rightarrow> (exn + unit) \<times> RTDEReceiveInterface" where
  "start_thread s = (Inr (), s\<lparr>threads_started := Suc (threads_started s)\<rparr>)"

text \<open>
  The receive thread runs \<open>receiveCallback\<close> while the thread that created it
  goes on. \<open>receive_thread_steps e m\<close> is what the new thread has done after
  \<open>m\<close> passes through the loop of \<open>receiveCallback\<close> (fewer when the loop
  ends before): the same loop, cut after \<open>m\<close> evaluations of its condition.
\<close>

primrec receive_thread_steps ::
  "env \<Rightarrow> nat \<Rightarrow> RTDEReceiveInterface \<Rightarrow> RTDEReceiveInterface" where
  "receive_thread_steps e 0 s = s"
| "receive_thread_steps e (Suc m) s =
     (let s0 = (if stop_requested e (length (wire s)) then s\<lparr>stop_thread := True\<rparr> else s) in
      if \<not> stop_thread s0
      then (case rtde_receiveData e s0 of
              (Inr u, s1) \<Rightarrow> receive_thread_steps e m s1
            | (Inl ex, s1) \<Rightarrow>
                (let s2 = s1\<lparr>cerr := cerr s1 @ [What ex]\<rparr>;
                     s3 = (if rtde_isConnected s2 then rtde_disconnect s2 else s2);
                     s4 = s3\<lparr>stop_thread := True\<rparr>
                 in receive_thread_steps e m s4))
      else s0)"

text \<open>
  \<open>std::this_thread::sleep_for\<close> in a function that has started the receive
  thread: while the caller sleeps, the receive thread gets through its loop as often as
  the scheduler lets it.
\<close>

definition sleep_for ::
  "env \<Rightarrow> RTDEReceiveInterface \<Rightarrow> (exn + unit) \<times> RTDEReceiveInterface" where
  "sleep_for e s = (Inr (), receive_thread_steps e (thread_progress e (length (wire s))) s)"

definition RTDEReceiveInterface_ctor ::
  "env \<Rightarrow> string list \<Rightarrow> (exn + unit) \<times> RTDEReceiveInterface" where
  "RTDEReceiveInterface_ctor e vars =
     (bindE (rtde_connect e) (\<lambda>_.
      bindE (rtde_negotiateProtocolVersion e) (\<lambda>_.
      bindE (rtde_getControllerVersion e) (\<lambda>controller_version.
      let major_version = get_MAJOR_VERSION controller_version;
          frequency = (if major_version > CB3_MAJOR_VERSION then 500 else 125) in
      bindE (setupRecipes e frequency) (\<lambda>_.
      bindE (rtde_sendStart e) (\<lambda>_.
      bindE start_thread (\<lambda>_.
      sleep_for e)))))))
       \<lparr>cout = [], cerr = [], rtde_conn_state = DISCONNECTED, wire = [],
        variables = vars, stop_thread = False, threads_started = 0\<rparr>"

definition RTDEReceiveInterface_isConnected :: "RTDEReceiveInterface \<Rightarrow> bool" where
  "RTDEReceiveInterface_isConnected s = rtde_isConnected s"

definition RTDEReceiveInterface_reconnect ::
  "env \<Rightarrow> RTDEReceiveInterface \<Rightarrow> (exn + bool) \<times> RTDEReceiveInterface" where
  "RTDEReceiveInterface_reconnect e =
     bindE (rtde_connect e) (\<lambda>_.
     bindE (rtde_negotiateProtocolVersion e) (\<lambda>_.
     bindE (rtde_getControllerVersion e) (\<lambda>controller_version.
     let major_version = get_MAJOR_VERSION controller_version;
         frequency = (if major_version > CB3_MAJOR_VERSION then 500 else 125) in
     bindE (setupRecipes e frequency) (\<lambda>_.
     bindE (rtde_sendStart e) (\<lambda>_.
     bindE (\<lambda>s. (Inr (), s\<lparr>stop_thread := False\<rparr>)) (\<lambda>_.
     bindE start_thread (\<lambda>_.
     bindE (sleep_for e) (\<lambda>_.
     (\<lambda>s. (Inr (RTDEReceiveInterface_isConnected s), s))))))))))"

text \<open>
  \<open>receiveCallback\<close>, one call per evaluation of the loop condition. The flag
  \<open>stop_thread\<close> is shared with the thread that owns the interface: when that thread
  has set it by now, the loop reads it as set. The loop need not end.
\<close>

partial_function (option) receiveCallback ::
  "env \<Rightarrow> RTDEReceiveInterface \<Rightarrow> RTDEReceiveInterface option" where
  "receiveCallback e s =
     (let s0 = (if stop_requested e (length (wire s)) then s\<lparr>stop_thread := True\<rparr> else s) in
      if \<not> stop_thread s0
      then (case rtde_receiveData e s0 of
              (Inr u, s1) \<Rightarrow> receiveCallback e s1
            | (Inl ex, s1) \<Rightarrow>
                (let s2 = s1\<lparr>cerr := cerr s1 @ [What ex]\<rparr>;
                     s3 = (if rtde_isConnected s2 then rtde_disconnect s2 else s2);
                     s4 = s3\<lparr>stop_thread := True\<rparr>
                 in receiveCallback e s4))
      else Some s0)"

declare receiveCallback.simps [code]

section \<open>Observations on a session's calls\<close>

text \<open>The field lists of the input recipes declared on the wire, in order.\<close>

fun input_recipes :: "(rtde_call \<times> bool) list \<Rightarrow> string list list" where
  "input_recipes [] = []"
| "input_recipes ((SendInputSetup names, ok) # w) = names # input_recipes w"
| "input_recipes (c # w) = input_recipes w"

text \<open>The frequencies passed to \<open>sendOutputSetup\<close>, in order.\<close>

fun output_frequencies :: "(rtde_call \<times> bool) list \<Rightarrow> real list" where
  "output_frequencies [] = []"
| "output_frequencies ((SendOutputSetup names frequency, ok) # w) = frequency # output_frequencies w"
| "output_frequencies (c # w) = output_frequencies w"

text \<open>A controller of the given version on which no call raises and no stop is requested.\<close>

definition healthy :: "u32 \<times> u32 \<times> u32 \<times> u32 \<Rightarrow> env" where
  "healthy v =
     \<lparr>raises = (\<lambda>k. False), controller_version = v, stop_requested = (\<lambda>k. False),
      thread_progress = (\<lambda>k. 0)\<rparr>"

text \<open>The calls of one pass through \<open>RTDEIOInterface::reconnect\<close> that meets no failure.\<close>

definition reconnect_calls :: "u32 \<Rightarrow> (rtde_call \<times> bool) list" where
  "reconnect_calls major =
     [(Connect, True), (NegotiateProtocolVersion, True), (GetControllerVersion, True),
      (SendOutputSetup [''robot_status_bits'', ''output_int_register_0'']
         (if major \<le> 3 then 125 else 500), True),
      (SendInputSetup [''input_int_register_20''], True),
      (SendInputSetup [''input_int_register_20'', ''standard_digital_output_mask'',
                       ''standard_digital_output''], True),
      (SendInputSetup [''input_int_register_20'', ''tool_digital_output_mask'',
                       ''tool_digital_output''], True),
      (SendInputSetup [''input_int_register_20'', ''speed_slider_mask'',
                       ''speed_slider_fraction''], True),
      (SendInputSetup [''input_int_register_20'', ''standard_analog_output_mask'',
                       ''standard_analog_output_type'', ''standard_analog_output_0'',
                       ''standard_analog_output_1''], True),
      (SendStart, True)]"

text \<open>
  The wire entries left by attempting the calls \<open>cs\<close> in order, the first of them
  being call number \<open>n\<close>: every call returns until one raises, which ends the sequence.
\<close>

primrec attempt :: "env \<Rightarrow> nat \<Rightarrow> rtde_call list \<Rightarrow> (rtde_call \<times> bool) list" where
  "attempt e n [] = []"
| "attempt e n (c # cs) =
     (if raises e n then [(c, False)] else (c, True) # attempt e (Suc n) cs)"

text \<open>
  A computation performs the calls \<open>cs\<close>: from every state it appends exactly the
  attempt of \<open>cs\<close> to the wire, and it ends in an exception exactly when one of the
  calls raises.
\<close>

definition performs ::
  "env \<Rightarrow> ('a RTDE_scheme \<Rightarrow> (exn + 'b) \<times> 'a RTDE_scheme) \<Rightarrow> rtde_call list \<Rightarrow> bool" where
  "performs e m cs =
     (\<forall>r. wire (snd (m r)) = wire r @ attempt e (length (wire r)) cs \<and>
          isl (fst (m r)) = (\<exists>i<length cs. raises e (length (wire r) + i)))"

text \<open>
  A computation yields \<open>a\<close>: whenever it returns, it returns \<open>a\<close>, and the only
  exception it ends in is the session's.
\<close>

definition yields :: "('s \<Rightarrow> (exn + 'a) \<times> 's) \<Rightarrow> 'a \<Rightarrow> bool" where
  "yields m a = (\<forall>r. fst (m r) = Inl SessionError \<or> fst (m r) = Inr a)"

text \<open>Controllers for the worked examples: one where only the first call on the session
  raises, one where calls 0 and 12 raise, and one where call 2 raises.\<close>

definition one_failed_call :: env where
  "one_failed_call =
     \<lparr>raises = (\<lambda>k. k = 0), controller_version = (5, 10, 0, 0), stop_requested = (\<lambda>k. False),
      thread_progress = (\<lambda>k. 0)\<rparr>"

definition two_failed_calls :: env where
  "two_failed_calls =
     \<lparr>raises = (\<lambda>k. k = 0 \<or> k = 12), controller_version = (5, 10, 0, 0),
      stop_requested = (\<lambda>k. False), thread_progress = (\<lambda>k. 0)\<rparr>"

definition third_call_fails :: env where
  "third_call_fails =
     \<lparr>raises = (\<lambda>k. k = 2), controller_version = (5, 10, 0, 0), stop_requested = (\<lambda>k. False),
      thread_progress = (\<lambda>k. 0)\<rparr>"

text \<open>A controller on which no call raises and the stop flag is found set once two calls
  have been made.\<close>

definition stop_after_two_calls :: env where
  "stop_after_two_calls =
     \<lparr>raises = (\<lambda>k. False), controller_version = (5, 10, 0, 0), stop_requested = (\<lambda>k. k = 2),
      thread_progress = (\<lambda>k. 0)\<rparr>"

text \<open>
  A controller on which the send and the reconnect that follows it both fail: calls 0
  and 2 raise.
\<close>

definition send_and_connect_fail :: env where
  "send_and_connect_fail =
     \<lparr>raises = (\<lambda>k. k = 0 \<or> k = 2), controller_version = (5, 10, 0, 0),
      stop_requested = (\<lambda>k. False), thread_progress = (\<lambda>k. 0)\<rparr>"

text \<open>
  A controller that accepts the five setup calls of the receive interface and fails the
  first receive, call 5, which the new receive thread makes while its creator sleeps;
  and one that is the same but for a receive that returns.
\<close>

definition first_receive_fails :: env where
  "first_receive_fails =
     \<lparr>raises = (\<lambda>k. k = 5), controller_version = (5, 10, 0, 0),
      stop_requested = (\<lambda>k. False), thread_progress = (\<lambda>k. 1)\<rparr>"

definition first_receive_returns :: env where
  "first_receive_returns =
     \<lparr>raises = (\<lambda>k. False), controller_version = (5, 10, 0, 0),
      stop_requested = (\<lambda>k. False), thread_progress = (\<lambda>k. 1)\<rparr>"

text \<open>
  The controller behaves as the wire \<open>w\<close> records from call number \<open>n\<close> on:
  each call of \<open>w\<close> raises exactly when \<open>w\<close> records it as failed. A
  disconnect cannot raise and is not asked about.
\<close>

primrec agrees :: "env \<Rightarrow> nat \<Rightarrow> (rtde_call \<times> bool) list \<Rightarrow> bool" where
  "agrees e n [] = True"
| "agrees e n (c # w) =
     ((if fst c = Disconnect then snd c else raises e n = (\<not> snd c)) \<and> agrees e (Suc n) w)"

text \<open>
  The calls of \<open>sendCommand\<close> when \<open>k\<close> sends fail, each followed by a
  reconnect that succeeds, and the next send is accepted. The session is disconnected
  after a failed send only if it is connected, which it is after a reconnect.
\<close>

primrec retry_wire :: "bool \<Rightarrow> u32 \<Rightarrow> RobotCommand \<Rightarrow> nat \<Rightarrow> (rtde_call \<times> bool) list" where
  "retry_wire is_connected major cmd 0 = [(Send cmd, True)]"
| "retry_wire is_connected major cmd (Suc k) =
     (Send cmd, False) # (if is_connected then [(Disconnect, True)] else []) @
     reconnect_calls major @ retry_wire True major cmd k"


section \<open>Results for ScriptClient::sendScriptCommand\<close>

text \<open>
  Claim C10. For every command string, \<open>sendScriptCommand\<close> writes nothing to the
  socket and returns false when the client is not connected or the string is empty;
  otherwise it writes exactly the string (one buffer, appended to what the socket has
  received) and returns true.
\<close>

theorem sendScriptCommand_result:
  "fst (sendScriptCommand cmd_str c) = (isConnected c \<and> cmd_str \<noteq> []) \<and>
   socket (snd (sendScriptCommand cmd_str c)) =
     (if isConnected c \<and> cmd_str \<noteq> [] then socket c @ [cmd_str] else socket c)"
  by (simp add: sendScriptCommand_def)

section \<open>Results for ScriptClient::sendScript\<close>

lemma stoi_single: "stoi [c] = (if isdigit c then Inr (digit_val c) else Inl InvalidArgument)"
  by (auto simp: stoi_def Let_def isdigit_def isspace_def digit_val_def)

lemma index_of_None: "c \<notin> set s \<Longrightarrow> index_of c s = None"
  by (induction s) auto

lemma index_of_first: "c \<notin> set p \<Longrightarrow> index_of c (p @ c # r) = Some (length p)"
  by (induction p) auto

lemma str_find_absent: "c \<notin> set s \<Longrightarrow> str_find s c 0 = npos"
  by (simp add: str_find_def index_of_None)

lemma str_find_first: "c \<notin> set p \<Longrightarrow> str_find (p @ c # r) c 0 = length p"
  by (simp add: str_find_def index_of_first)

lemma str_find_from: "c \<notin> set q \<Longrightarrow> str_find (p @ q @ c # r) c (length p) = length p + length q"
  by (simp add: str_find_def index_of_first)

lemma digit_char_props:
  assumes "d < 10"
  shows "isdigit (digit_char d)" "digit_val (digit_char d) = int d"
    "digit_char d \<noteq> CHR '' ''" "digit_char d \<noteq> CHR 0x0A" "digit_char d \<noteq> CHR ''$''"
proof -
  have e: "(of_char (digit_char d) :: nat) = 48 + d"
    using assms by (simp add: digit_char_def)
  show "isdigit (digit_char d)" using assms e by (simp add: isdigit_def)
  show "digit_val (digit_char d) = int d" using e by (simp add: digit_val_def)
  have "(of_char (digit_char d) :: nat) \<noteq> of_char (CHR '' '')" using e by simp
  then show "digit_char d \<noteq> CHR '' ''" by metis
  have "(of_char (digit_char d) :: nat) \<noteq> of_char (CHR 0x0A)" using e by simp
  then show "digit_char d \<noteq> CHR 0x0A" by metis
  have "(of_char (digit_char d) :: nat) \<noteq> of_char (CHR ''$'')" using e by simp
  then show "digit_char d \<noteq> CHR ''$''" by metis
qed

lemma needed_cmp:
  assumes "M < 10" "N < 10"
  shows "(major > (word_of_int (int M) :: u32) \<or>
          (major = word_of_int (int M) \<and> minor \<ge> (word_of_int (int N) :: u32)))
         = version_at_least major minor M N"
proof -
  have m: "unat (word_of_nat M :: u32) = M" using assms by (simp add: unat_of_nat)
  have n: "unat (word_of_nat N :: u32) = N" using assms by (simp add: unat_of_nat)
  have eq: "(major = word_of_nat M) = (unat major = M)"
    using m by (metis word_unat_eq_iff)
  show ?thesis
    by (simp add: version_at_least_def eq word_less_nat_alt word_le_nat_alt m n)
qed

lemma drop_marked_line: "drop (5 + length b) (a1 # a2 # a3 # a4 # b @ e # r) = r"
  by (simp add: numeral_eq_Suc)

text \<open>One pass of the loop over a line that carries a marker.\<close>

lemma loop_marked_line:
  assumes q: "CHR ''$'' \<notin> set q"
    and wf: "x \<noteq> CHR 0x0A" "M < 10" "N < 10" "CHR 0x0A \<notin> set body"
    and len: "length (q @ CHR ''$'' # x # digit_char M # digit_char N # body @ CHR 0x0A # r) < npos"
  shows "sendScript_loop major minor
           (q @ CHR ''$'' # x # digit_char M # digit_char N # body @ CHR 0x0A # r) =
         (if version_at_least major minor M N
          then sendScript_loop major minor ((q @ ''    '' @ body @ [CHR 0x0A]) @ r)
          else sendScript_loop major minor (q @ r))"
proof -
  let ?text = "q @ CHR ''$'' # x # digit_char M # digit_char N # body @ CHR 0x0A # r"
  have n: "str_find ?text CHR ''$'' 0 = length q"
    using q by (rule str_find_first)
  have ne: "length q \<noteq> npos" using len by simp
  have at2: "str_at ?text (length q + 2) = Inr (digit_char M)"
    by (simp add: str_at_def nth_append)
  have at3: "str_at ?text (length q + 3) = Inr (digit_char N)"
    by (simp add: str_at_def nth_append)
  have nl: "str_find ?text CHR 0x0A (length q) = length q + (4 + length body)"
    using str_find_from [of "CHR 0x0A" "CHR ''$'' # x # digit_char M # digit_char N # body" q r]
      wf digit_char_props [OF wf(2)] digit_char_props [OF wf(3)] by simp
  have keep: "str_insert (str_erase ?text (length q) 4) (length q) ''    '' =
              (q @ ''    '' @ body @ [CHR 0x0A]) @ r"
    by (simp add: str_insert_def str_erase_def)
  have cnt: "(length q + (4 + length body) - length q + 1) mod 2 ^ 64 = 5 + length body"
    using len by (simp add: npos_def)
  have drop1: "str_erase ?text (length q) (5 + length body) = q @ r"
    by (simp add: str_erase_def drop_marked_line)
  have sp: "[digit_char M] \<noteq> '' ''" "[digit_char N] \<noteq> '' ''"
    using digit_char_props [OF wf(2)] digit_char_props [OF wf(3)] by simp_all
  show ?thesis
    apply (subst sendScript_loop.simps)
    apply (simp only: n ne Let_def at2 at3 sum.case stoi_single nl cnt keep drop1
        digit_char_props [OF wf(2)] digit_char_props [OF wf(3)] if_True not_False_eq_True)
    apply (simp only: needed_cmp [OF wf(2) wf(3)] sp)
    apply simp
    done
qed

lemma loop_canonical:
  assumes "CHR ''$'' \<notin> set pre" "list_all wf_line ls"
    "length (pre @ render_script ls @ rest) < npos"
  shows "sendScript_loop major minor (pre @ render_script ls @ rest) =
         sendScript_loop major minor (pre @ expected_script major minor ls @ rest)"
  using assms
proof (induction ls arbitrary: pre)
  case Nil
  then show ?case by (simp add: render_script_def expected_script_def)
next
  case (Cons l ls)
  show ?case
  proof (cases l)
    case (Plain body)
    have "sendScript_loop major minor ((pre @ body @ [CHR 0x0A]) @ render_script ls @ rest) =
          sendScript_loop major minor ((pre @ body @ [CHR 0x0A]) @ expected_script major minor ls @ rest)"
      using Cons.prems Plain by (intro Cons.IH) (auto simp: render_script_def)
    then show ?thesis using Plain by (simp add: render_script_def expected_script_def)
  next
    case (Versioned p x M N body)
    let ?r = "render_script ls @ rest"
    let ?e = "expected_script major minor ls @ rest"
    have wf: "CHR ''$'' \<notin> set (pre @ p)" "x \<noteq> CHR 0x0A" "M < 10" "N < 10"
      "CHR ''$'' \<notin> set body" "CHR 0x0A \<notin> set body" "list_all wf_line ls"
      using Cons.prems Versioned by auto
    have tx: "pre @ render_script (l # ls) @ rest =
              (pre @ p) @ CHR ''$'' # x # digit_char M # digit_char N # body @ CHR 0x0A # ?r"
      using Versioned by (simp add: render_script_def)
    have len: "length ((pre @ p) @ CHR ''$'' # x # digit_char M # digit_char N # body @ CHR 0x0A # ?r) < npos"
      using Cons.prems(3) tx by simp
    note step = loop_marked_line [OF wf(1) wf(2) wf(3) wf(4) wf(6) len, of major minor]
    show ?thesis
    proof (cases "version_at_least major minor M N")
      case True
      have "sendScript_loop major minor (((pre @ p) @ ''    '' @ body @ [CHR 0x0A]) @ ?r) =
            sendScript_loop major minor (((pre @ p) @ ''    '' @ body @ [CHR 0x0A]) @ ?e)"
        using wf len by (intro Cons.IH) auto
      then show ?thesis
        using step True Versioned tx by (simp add: expected_script_def)
    next
      case False
      have "sendScript_loop major minor ((pre @ p) @ ?r) = sendScript_loop major minor ((pre @ p) @ ?e)"
        using wf len by (intro Cons.IH) auto
      then show ?thesis
        using step False Versioned tx by (simp add: expected_script_def)
    qed
  qed
qed

lemma expected_no_dollar:
  "list_all wf_line ls \<Longrightarrow> CHR ''$'' \<notin> set (expected_script major minor ls)"
proof (induction ls)
  case Nil
  then show ?case by (simp add: expected_script_def)
next
  case (Cons l ls)
  then show ?case by (cases l) (auto simp: expected_script_def)
qed

lemma loop_canonical_done:
  assumes "list_all wf_line ls" "length (render_script ls) < npos"
  shows "sendScript_loop major minor (render_script ls) =
         Some (Done (expected_script major minor ls))"
proof -
  have "sendScript_loop major minor ([] @ render_script ls @ []) =
        sendScript_loop major minor ([] @ expected_script major minor ls @ [])"
    using assms by (intro loop_canonical) auto
  moreover have "sendScript_loop major minor (expected_script major minor ls) =
        Some (Done (expected_script major minor ls))"
    by (subst sendScript_loop.simps)
      (simp add: str_find_absent [OF expected_no_dollar [OF assms(1)]])
  ultimately show ?thesis by simp
qed


lemma digit_char_eval:
  "digit_char 0 = CHR ''0''" "digit_char 1 = CHR ''1''" "digit_char 2 = CHR ''2''"
  "digit_char 3 = CHR ''3''" "digit_char 4 = CHR ''4''" "digit_char 5 = CHR ''5''"
  "digit_char 6 = CHR ''6''" "digit_char 7 = CHR ''7''" "digit_char 8 = CHR ''8''"
  "digit_char 9 = CHR ''9''"
  using char_of_char [of "CHR ''0''", where ?'a = nat] char_of_char [of "CHR ''1''", where ?'a = nat]
    char_of_char [of "CHR ''2''", where ?'a = nat] char_of_char [of "CHR ''3''", where ?'a = nat]
    char_of_char [of "CHR ''4''", where ?'a = nat] char_of_char [of "CHR ''5''", where ?'a = nat]
    char_of_char [of "CHR ''6''", where ?'a = nat] char_of_char [of "CHR ''7''", where ?'a = nat]
    char_of_char [of "CHR ''8''", where ?'a = nat] char_of_char [of "CHR ''9''", where ?'a = nat]
  by (simp_all add: digit_char_def)

lemma loop_bad_marker:
  assumes p: "CHR ''$'' \<notin> set p"
    and len: "length (p @ CHR ''$'' # tail) < npos"
    and bad: "length tail < 3 \<or> \<not> isdigit (tail ! 1) \<or> \<not> isdigit (tail ! 2)"
  shows "sendScript_loop major minor (p @ CHR ''$'' # tail) =
         Some (if length tail < 3 then Raised OutOfRange
               else if tail ! 1 = CHR '' '' \<or> tail ! 2 = CHR '' '' then ReturnFalse
               else Raised InvalidArgument)"
proof -
  let ?text = "p @ CHR ''$'' # tail"
  have n: "str_find ?text CHR ''$'' 0 = length p"
    using p by (rule str_find_first)
  have ne: "length p \<noteq> npos" using len by simp
  have at2: "str_at ?text (length p + 2) = (if 1 < length tail then Inr (tail ! 1) else Inl OutOfRange)"
    by (simp add: str_at_def nth_append)
  have at3: "str_at ?text (length p + 3) = (if 2 < length tail then Inr (tail ! 2) else Inl OutOfRange)"
    by (simp add: str_at_def nth_append numeral_3_eq_3 numeral_2_eq_2)
  have unf: "sendScript_loop major minor ?text =
     (case (if 1 < length tail then Inr (tail ! 1) else Inl OutOfRange) of
        Inl e \<Rightarrow> Some (Raised e)
      | Inr c2 \<Rightarrow>
     (case (if 2 < length tail then Inr (tail ! 2) else Inl OutOfRange) of
        Inl e \<Rightarrow> Some (Raised e)
      | Inr c3 \<Rightarrow>
          if [c2] \<noteq> '' '' \<and> [c3] \<noteq> '' ''
          then (case stoi [c2] of
                  Inl e \<Rightarrow> Some (Raised e)
                | Inr mj \<Rightarrow>
               (case stoi [c3] of
                  Inl e \<Rightarrow> Some (Raised e)
                | Inr mn \<Rightarrow> sendScript_loop major minor
                    (if major > word_of_int mj \<or> (major = word_of_int mj \<and> minor \<ge> word_of_int mn)
                     then str_insert (str_erase ?text (length p) 4) (length p) ''    ''
                     else str_erase ?text (length p)
                            ((str_find ?text CHR 0x0A (length p) - length p + 1) mod 2 ^ 64))))
          else Some ReturnFalse))"
    apply (subst sendScript_loop.simps)
    apply (simp only: n ne Let_def at2 at3 if_True not_False_eq_True)
    apply (simp split: sum.splits)
    done
  show ?thesis
  proof (cases "length tail < 3")
    case True
    then show ?thesis
      unfolding unf by (cases "1 < length tail") auto
  next
    case False
    then have l: "1 < length tail" "2 < length tail" by simp_all
    show ?thesis
      using bad False unfolding unf
      by (auto simp add: l stoi_single isdigit_def split: sum.splits)
  qed
qed

lemma select_script_socket:
  "select_script loaded UR_SCRIPT c = (t, c1) \<Longrightarrow>
   socket c1 = socket c \<and> major_control_version c1 = major_control_version c \<and>
   minor_control_version c1 = minor_control_version c \<and> conn_state c1 = conn_state c"
  by (auto simp: select_script_def Let_def split: if_splits option.splits)

text \<open>
  Claim C3, as amended. A marker is four characters: \<open>$\<close>, one character that is
  not read, and the digits M and N. For every script text made of lines that each end in
  a newline and carry at most one marker, a line with a marker is kept, its marker
  overwritten by four spaces, exactly when the controller version (major, minor) is
  lexicographically at least (M, N); otherwise the text from the \<open>$\<close> up to and
  including the line's newline is deleted, which is the whole line when the marker
  starts it, while text that stands before the marker on its line remains. The text
  that results is what is written to the socket.
\<close>

theorem sendScript_version_lines:
  assumes "list_all wf_line ls" "length (render_script ls) < npos"
    and "select_script loaded UR_SCRIPT c = (render_script ls, c1)"
  shows "sendScript loaded UR_SCRIPT c =
     Some (if isConnected c1 \<and>
              expected_script (major_control_version c1) (minor_control_version c1) ls \<noteq> []
           then (Inr True,
                 c1\<lparr>socket := socket c1 @
                    [expected_script (major_control_version c1) (minor_control_version c1) ls]\<rparr>)
           else (Inr False,
                 c1\<lparr>cerr := cerr c1 @
                    [Msg ''Please connect to the controller before calling sendScript()'']\<rparr>))"
  using assms(3) loop_canonical_done [OF assms(1) assms(2)]
  by (simp add: sendScript_def)

text \<open>A three-line script on a 5.0 controller: one line deleted, one kept, one plain.\<close>

theorem sendScript_version_lines_witness:
  "list_all wf_line
     [Versioned [] CHR ''V'' 9 9 ''def'', Versioned [] CHR ''V'' 5 0 ''xyz'', Plain ''foo''] \<and>
   render_script
     [Versioned [] CHR ''V'' 9 9 ''def'', Versioned [] CHR ''V'' 5 0 ''xyz'', Plain ''foo''] =
     ''$V99def\<newline>$V50xyz\<newline>foo\<newline>'' \<and>
   length ''$V99def\<newline>$V50xyz\<newline>foo\<newline>'' < npos \<and>
   sendScript None ''$V99def\<newline>$V50xyz\<newline>foo\<newline>''
     \<lparr>cout = [], cerr = [], major_control_version = 5, minor_control_version = 0,
      conn_state = CONNECTED, script_file_name = [], socket = []\<rparr> =
   Some (Inr True,
     \<lparr>cout = [], cerr = [], major_control_version = 5, minor_control_version = 0,
      conn_state = CONNECTED, script_file_name = [],
      socket = [''    xyz\<newline>foo\<newline>'']\<rparr>)"
proof -
  let ?ls = "[Versioned [] CHR ''V'' 9 9 ''def'', Versioned [] CHR ''V'' 5 0 ''xyz'', Plain ''foo'']"
  let ?c = "\<lparr>cout = [], cerr = [], major_control_version = 5, minor_control_version = 0,
      conn_state = CONNECTED, script_file_name = [], socket = []\<rparr>"
  have wf: "list_all wf_line ?ls" by simp
  have r: "render_script ?ls = ''$V99def\<newline>$V50xyz\<newline>foo\<newline>''"
    by (simp add: render_script_def digit_char_eval)
  have len: "length (render_script ?ls) < npos" by (simp add: r npos_def)
  have sel: "select_script None (render_script ?ls) ?c = (render_script ?ls, ?c)"
    by (simp add: select_script_def r)
  have e: "expected_script 5 0 ?ls = ''    xyz\<newline>foo\<newline>''"
    by (simp add: expected_script_def version_at_least_def)
  show ?thesis
    using sendScript_version_lines [OF wf len sel] wf len
    by (simp add: r e isConnected_def)
qed


text \<open>
  The claim as first stated fails where a marker does not start its line: the text before
  the marker survives and is joined to the next line, so the line is not deleted whole.
\<close>

theorem sendScript_marker_inside_line_counterexample:
  "sendScript None ''abc$V99def\<newline>xyz\<newline>''
     \<lparr>cout = [], cerr = [], major_control_version = 5, minor_control_version = 0,
      conn_state = CONNECTED, script_file_name = [], socket = []\<rparr> =
   Some (Inr True,
     \<lparr>cout = [], cerr = [], major_control_version = 5, minor_control_version = 0,
      conn_state = CONNECTED, script_file_name = [], socket = [''abcxyz\<newline>'']\<rparr>) \<and>
   ''abcxyz\<newline>'' \<noteq> ''xyz\<newline>''"
proof -
  let ?ls = "[Versioned ''abc'' CHR ''V'' 9 9 ''def'', Plain ''xyz'']"
  have r: "render_script ?ls = ''abc$V99def\<newline>xyz\<newline>''"
    by (simp add: render_script_def digit_char_eval)
  have "sendScript_loop 5 0 (render_script ?ls) = Some (Done (expected_script 5 0 ?ls))"
    by (rule loop_canonical_done) (simp_all add: r npos_def)
  then have "sendScript_loop 5 0 ''abc$V99def\<newline>xyz\<newline>'' = Some (Done ''abcxyz\<newline>'')"
    by (simp add: r expected_script_def version_at_least_def)
  then show ?thesis
    by (simp add: sendScript_def select_script_def isConnected_def)
qed

text \<open>
  Claim C7, as amended. When the loop reaches a marker whose two version characters are
  not both digits, after any number of well-formed lines, the upload is aborted and
  nothing is written to the socket: \<open>sendScript\<close> returns false when one of the
  two characters is a space, raises \<open>std::invalid_argument\<close> (from
  \<open>std::stoi\<close>) when neither is a space, and raises \<open>std::out_of_range\<close>
  (from \<open>at\<close>) when the text ends before the two characters.
\<close>

theorem sendScript_bad_marker:
  assumes "select_script loaded UR_SCRIPT c = (render_script ls @ q @ CHR ''$'' # tail, c1)"
    and "list_all wf_line ls" "CHR ''$'' \<notin> set q"
    and "length (render_script ls @ q @ CHR ''$'' # tail) < npos"
    and "length tail < 3 \<or> \<not> isdigit (tail ! 1) \<or> \<not> isdigit (tail ! 2)"
  shows "sendScript loaded UR_SCRIPT c =
     Some (if length tail < 3 then (Inl OutOfRange, c1)
           else if tail ! 1 = CHR '' '' \<or> tail ! 2 = CHR '' ''
           then (Inr False,
                 c1\<lparr>cerr := cerr c1 @
                    [Msg ''Could not read the control version required from the control script!'']\<rparr>)
           else (Inl InvalidArgument, c1)) \<and>
         socket c1 = socket c"
proof -
  let ?mj = "major_control_version c1" and ?mn = "minor_control_version c1"
  let ?p = "expected_script ?mj ?mn ls @ q"
  have "sendScript_loop ?mj ?mn ([] @ render_script ls @ (q @ CHR ''$'' # tail)) =
        sendScript_loop ?mj ?mn ([] @ expected_script ?mj ?mn ls @ (q @ CHR ''$'' # tail))"
    using assms(2,4) by (intro loop_canonical) auto
  then have a: "sendScript_loop ?mj ?mn (render_script ls @ q @ CHR ''$'' # tail) =
        sendScript_loop ?mj ?mn (?p @ CHR ''$'' # tail)"
    by simp
  have nd: "CHR ''$'' \<notin> set ?p"
    using expected_no_dollar [OF assms(2)] assms(3) by simp
  have "length (expected_script ?mj ?mn ls) \<le> length (render_script ls)"
    using assms(2)
  proof (induction ls)
    case Nil
    then show ?case by (simp add: expected_script_def render_script_def)
  next
    case (Cons l ls)
    then show ?case by (cases l) (auto simp: expected_script_def render_script_def)
  qed
  then have len: "length (?p @ CHR ''$'' # tail) < npos"
    using assms(4) by simp
  have "sendScript_loop ?mj ?mn (render_script ls @ q @ CHR ''$'' # tail) =
         Some (if length tail < 3 then Raised OutOfRange
               else if tail ! 1 = CHR '' '' \<or> tail ! 2 = CHR '' '' then ReturnFalse
               else Raised InvalidArgument)"
    unfolding a by (rule loop_bad_marker [OF nd len assms(5)])
  then show ?thesis
    using assms(1) select_script_socket [OF assms(1)]
    by (simp add: sendScript_def)
qed

text \<open>A kept line followed by a marker whose major character is a space.\<close>

theorem sendScript_bad_marker_witness:
  "list_all wf_line [Versioned [] CHR ''V'' 5 0 ''ok''] \<and>
   render_script [Versioned [] CHR ''V'' 5 0 ''ok''] @ ''# '' @ CHR ''$'' # ''V 0x\<newline>'' =
     ''$V50ok\<newline># $V 0x\<newline>'' \<and>
   \<not> isdigit (''V 0x\<newline>'' ! 1) \<and>
   sendScript None ''$V50ok\<newline># $V 0x\<newline>''
     \<lparr>cout = [], cerr = [], major_control_version = 5, minor_control_version = 0,
      conn_state = CONNECTED, script_file_name = [], socket = []\<rparr> =
   Some (Inr False,
     \<lparr>cout = [],
      cerr = [Msg ''Could not read the control version required from the control script!''],
      major_control_version = 5, minor_control_version = 0,
      conn_state = CONNECTED, script_file_name = [], socket = []\<rparr>)"
proof -
  let ?ls = "[Versioned [] CHR ''V'' 5 0 ''ok'']"
  let ?c = "\<lparr>cout = [], cerr = [], major_control_version = 5, minor_control_version = 0,
      conn_state = CONNECTED, script_file_name = [], socket = []\<rparr>"
  have wf: "list_all wf_line ?ls" by simp
  have r: "render_script ?ls @ ''# '' @ CHR ''$'' # ''V 0x\<newline>'' = ''$V50ok\<newline># $V 0x\<newline>''"
    by (simp add: render_script_def digit_char_eval)
  have sel: "select_script None ''$V50ok\<newline># $V 0x\<newline>'' ?c =
             (render_script ?ls @ ''# '' @ CHR ''$'' # ''V 0x\<newline>'', ?c)"
    unfolding r by (simp add: select_script_def)
  have nd: "CHR ''$'' \<notin> set ''# ''" by simp
  have len: "length (render_script ?ls @ ''# '' @ CHR ''$'' # ''V 0x\<newline>'') < npos"
    unfolding r by (simp add: npos_def)
  have bad: "length ''V 0x\<newline>'' < 3 \<or> \<not> isdigit (''V 0x\<newline>'' ! 1) \<or> \<not> isdigit (''V 0x\<newline>'' ! 2)"
    by (simp add: isdigit_def)
  show ?thesis
    using sendScript_bad_marker [OF sel wf nd len bad] wf r
    by (simp add: isdigit_def)
qed

text \<open>
  The claim as first stated fails for a marker whose characters are letters: the call
  does not return false, it raises.
\<close>

theorem sendScript_bad_marker_raises_counterexample:
  "sendScript None ''$Vab\<newline>''
     \<lparr>cout = [], cerr = [], major_control_version = 5, minor_control_version = 0,
      conn_state = CONNECTED, script_file_name = [], socket = []\<rparr> =
   Some (Inl InvalidArgument,
     \<lparr>cout = [], cerr = [], major_control_version = 5, minor_control_version = 0,
      conn_state = CONNECTED, script_file_name = [], socket = []\<rparr>)"
proof -
  have "sendScript_loop 5 0 ([] @ CHR ''$'' # ''Vab\<newline>'') =
         Some (if length ''Vab\<newline>'' < 3 then Raised OutOfRange
               else if ''Vab\<newline>'' ! 1 = CHR '' '' \<or> ''Vab\<newline>'' ! 2 = CHR '' '' then ReturnFalse
               else Raised InvalidArgument)"
    by (rule loop_bad_marker) (simp_all add: npos_def isdigit_def)
  then show ?thesis
    by (simp add: sendScript_def select_script_def)
qed


section \<open>The calls of the setup sequences\<close>

lemma output_frequencies_append:
  "output_frequencies (w @ w') = output_frequencies w @ output_frequencies w'"
  by (induction w rule: output_frequencies.induct) auto

lemma input_recipes_append:
  "input_recipes (w @ w') = input_recipes w @ input_recipes w'"
  by (induction w rule: input_recipes.induct) auto

lemma attempt_length:
  "\<not> (\<exists>i<length cs. raises e (n + i)) \<Longrightarrow> length (attempt e n cs) = length cs"
proof (induction cs arbitrary: n)
  case Nil
  then show ?case by simp
next
  case (Cons c cs)
  from Cons.prems have "\<not> raises e n" by (metis add.right_neutral length_greater_0_conv list.distinct(1))
  moreover have "\<not> (\<exists>i<length cs. raises e (Suc n + i))"
    using Cons.prems by auto
  ultimately show ?case using Cons.IH [of "Suc n"] by simp
qed

lemma raises_Cons:
  "(\<exists>i<length (c # cs). raises e (n + i)) = (raises e n \<or> (\<exists>i<length cs. raises e (Suc n + i)))"
proof
  assume "\<exists>i<length (c # cs). raises e (n + i)"
  then obtain i where i: "i < Suc (length cs)" "raises e (n + i)" by auto
  show "raises e n \<or> (\<exists>i<length cs. raises e (Suc n + i))"
  proof (cases i)
    case 0
    then show ?thesis using i by simp
  next
    case (Suc j)
    then show ?thesis using i by auto
  qed
next
  assume "raises e n \<or> (\<exists>i<length cs. raises e (Suc n + i))"
  then show "\<exists>i<length (c # cs). raises e (n + i)"
  proof
    assume "raises e n"
    then show ?thesis by (intro exI [of _ 0]) simp
  next
    assume "\<exists>i<length cs. raises e (Suc n + i)"
    then obtain i where "i < length cs" "raises e (Suc n + i)" by auto
    then show ?thesis by (intro exI [of _ "Suc i"]) simp
  qed
qed

lemma attempt_append_bad:
  "\<exists>i<length cs. raises e (n + i) \<Longrightarrow> attempt e n (cs @ cs') = attempt e n cs"
proof (induction cs arbitrary: n)
  case Nil
  then show ?case by simp
next
  case (Cons c cs)
  show ?case
  proof (cases "raises e n")
    case True
    then show ?thesis by simp
  next
    case False
    then have "\<exists>i<length cs. raises e (Suc n + i)"
      using Cons.prems raises_Cons [of c cs e n] by simp
    then show ?thesis using Cons.IH [of "Suc n"] False by simp
  qed
qed

lemma attempt_append_ok:
  "\<not> (\<exists>i<length cs. raises e (n + i)) \<Longrightarrow>
   attempt e n (cs @ cs') = attempt e n cs @ attempt e (n + length cs) cs'"
proof (induction cs arbitrary: n)
  case Nil
  then show ?case by simp
next
  case (Cons c cs)
  then have "\<not> raises e n" "\<not> (\<exists>i<length cs. raises e (Suc n + i))"
    using raises_Cons [of c cs e n] by blast+
  then show ?case using Cons.IH [of "Suc n"] by simp
qed

lemma raises_append:
  assumes "\<not> (\<exists>i<length cs. raises e (n + i))"
  shows "(\<exists>i<length cs + length cs'. raises e (n + i)) = (\<exists>i<length cs'. raises e (n + length cs + i))"
proof
  assume "\<exists>i<length cs + length cs'. raises e (n + i)"
  then obtain i where ii: "i < length cs + length cs'" "raises e (n + i)" by auto
  then have "\<not> i < length cs" using assms by auto
  then have "i - length cs < length cs'" "n + length cs + (i - length cs) = n + i"
    using ii by auto
  then show "\<exists>i<length cs'. raises e (n + length cs + i)"
    using ii by metis
next
  assume "\<exists>i<length cs'. raises e (n + length cs + i)"
  then obtain i where "i < length cs'" "raises e (n + length cs + i)" by auto
  then have "length cs + i < length cs + length cs'" "raises e (n + (length cs + i))"
    by (simp_all add: add.assoc)
  then show "\<exists>i<length cs + length cs'. raises e (n + i)" by blast
qed

lemma performs_bindE:
  fixes m :: "'a RTDE_scheme \<Rightarrow> (exn + 'b) \<times> 'a RTDE_scheme"
  assumes m: "performs e m cs"
    and ret: "\<And>r a r'. m r = (Inr a, r') \<Longrightarrow> a = a0"
    and f: "performs e (f a0) cs'"
  shows "performs e (bindE m f) (cs @ cs')"
  unfolding performs_def
proof (intro allI)
  fix r :: "'a RTDE_scheme"
  let ?n = "length (wire r)"
  from m have w: "wire (snd (m r)) = wire r @ attempt e ?n cs"
    and i: "isl (fst (m r)) = (\<exists>i<length cs. raises e (?n + i))"
    by (simp_all add: performs_def)
  obtain x r' where mr: "m r = (x, r')" by (cases "m r")
  show "wire (snd (bindE m f r)) = wire r @ attempt e ?n (cs @ cs') \<and>
        isl (fst (bindE m f r)) = (\<exists>i<length (cs @ cs'). raises e (?n + i))"
  proof (cases x)
    case (Inl ex)
    then have bad: "\<exists>i<length cs. raises e (?n + i)" using i mr by simp
    then have "\<exists>i<length (cs @ cs'). raises e (?n + i)"
      by (metis length_append trans_less_add1)
    then show ?thesis
      using Inl mr w by (simp add: bindE_def attempt_append_bad [OF bad])
  next
    case (Inr a)
    then have a: "a = a0" using ret mr by simp
    have ok: "\<not> (\<exists>i<length cs. raises e (?n + i))" using i mr Inr by simp
    have len: "length (wire r') = ?n + length cs"
      using w mr attempt_length [OF ok] by simp
    from f have w': "wire (snd (f a0 r')) = wire r' @ attempt e (length (wire r')) cs'"
      and i': "isl (fst (f a0 r')) = (\<exists>i<length cs'. raises e (length (wire r') + i))"
      by (simp_all add: performs_def)
    show ?thesis
      using Inr a mr w w' i' len
      by (simp add: bindE_def attempt_append_ok [OF ok] raises_append [OF ok])
  qed
qed

lemma performs_bindE_unit:
  fixes m :: "'a RTDE_scheme \<Rightarrow> (exn + unit) \<times> 'a RTDE_scheme"
  assumes "performs e m cs" "performs e (f ()) cs'"
  shows "performs e (bindE m f) (cs @ cs')"
  using assms(1) _ assms(2) by (rule performs_bindE) simp

lemma performs_ops:
  "performs e (rtde_connect e) [Connect]"
  "performs e (rtde_negotiateProtocolVersion e) [NegotiateProtocolVersion]"
  "performs e (rtde_getControllerVersion e) [GetControllerVersion]"
  "performs e (rtde_sendOutputSetup e names f) [SendOutputSetup names f]"
  "performs e (rtde_sendInputSetup e names) [SendInputSetup names]"
  "performs e (rtde_sendStart e) [SendStart]"
  "performs e (rtde_send e cmd) [Send cmd]"
  "performs e (rtde_receiveData e) [ReceiveData]"
  by (simp_all add: performs_def rtde_invoke_def rtde_connect_def
      rtde_negotiateProtocolVersion_def rtde_getControllerVersion_def rtde_sendOutputSetup_def
      rtde_sendInputSetup_def rtde_sendStart_def rtde_send_def rtde_receiveData_def)

lemma getControllerVersion_value:
  "rtde_getControllerVersion e r = (Inr a, r') \<Longrightarrow> a = controller_version e"
  by (auto simp: rtde_getControllerVersion_def rtde_invoke_def split: if_splits)

lemma performs_bindE_version:
  assumes "performs e (f (controller_version e)) cs'"
  shows "performs e (bindE (rtde_getControllerVersion e) f) ([GetControllerVersion] @ cs')"
  using performs_ops(3) getControllerVersion_value assms by (rule performs_bindE)

lemma performs_returnE: "performs e (returnE a) []"
  by (simp add: performs_def returnE_def)

lemma frequency_choice:
  "(if get_MAJOR_VERSION v > CB3_MAJOR_VERSION then 500 else 125) =
   (if get_MAJOR_VERSION v \<le> 3 then 125 else (500::real))"
  by (auto simp: CB3_MAJOR_VERSION_def not_le)

lemma performs_io_reconnect:
  "performs e (RTDEIOInterface_reconnect e)
     (map fst (reconnect_calls (get_MAJOR_VERSION (controller_version e))))"
proof -
  have "performs e (RTDEIOInterface_reconnect e)
     ([Connect] @ [NegotiateProtocolVersion] @ [GetControllerVersion] @
      [SendOutputSetup [''robot_status_bits'', ''output_int_register_0'']
         (if get_MAJOR_VERSION (controller_version e) \<le> 3 then 125 else 500)] @
      [SendInputSetup [''input_int_register_20'']] @
      [SendInputSetup [''input_int_register_20'', ''standard_digital_output_mask'',
                       ''standard_digital_output'']] @
      [SendInputSetup [''input_int_register_20'', ''tool_digital_output_mask'',
                       ''tool_digital_output'']] @
      [SendInputSetup [''input_int_register_20'', ''speed_slider_mask'',
                       ''speed_slider_fraction'']] @
      [SendInputSetup [''input_int_register_20'', ''standard_analog_output_mask'',
                       ''standard_analog_output_type'', ''standard_analog_output_0'',
                       ''standard_analog_output_1'']] @
      [SendStart] @ [])"
    unfolding RTDEIOInterface_reconnect_def Let_def frequency_choice
    by (intro performs_bindE_version performs_bindE_unit performs_ops performs_returnE)
  then show ?thesis by (simp add: reconnect_calls_def)
qed

lemma performs_io_setup:
  "performs e (RTDEIOInterface_setup e)
     [Connect, NegotiateProtocolVersion, GetControllerVersion,
      SendOutputSetup [''robot_status_bits'', ''output_int_register_0'']
         (if get_MAJOR_VERSION (controller_version e) \<le> 3 then 125 else 500),
      SendInputSetup [''input_int_register_20''],
      SendInputSetup [''input_int_register_20'', ''standard_digital_output_mask'',
                      ''standard_digital_output''],
      SendInputSetup [''input_int_register_20'', ''tool_digital_output_mask'',
                      ''tool_digital_output''],
      SendInputSetup [''input_int_register_20'', ''speed_slider_mask'',
                      ''speed_slider_fraction''],
      SendInputSetup [''input_int_register_2'', ''standard_analog_output_mask'',
                      ''standard_analog_output_type'', ''standard_analog_output_0'',
                      ''standard_analog_output_1''],
      SendStart]"
proof -
  have "performs e (RTDEIOInterface_setup e)
     ([Connect] @ [NegotiateProtocolVersion] @ [GetControllerVersion] @
      [SendOutputSetup [''robot_status_bits'', ''output_int_register_0'']
         (if get_MAJOR_VERSION (controller_version e) \<le> 3 then 125 else 500)] @
      [SendInputSetup [''input_int_register_20'']] @
      [SendInputSetup [''input_int_register_20'', ''standard_digital_output_mask'',
                       ''standard_digital_output'']] @
      [SendInputSetup [''input_int_register_20'', ''tool_digital_output_mask'',
                       ''tool_digital_output'']] @
      [SendInputSetup [''input_int_register_20'', ''speed_slider_mask'',
                       ''speed_slider_fraction'']] @
      [SendInputSetup [''input_int_register_2'', ''standard_analog_output_mask'',
                       ''standard_analog_output_type'', ''standard_analog_output_0'',
                       ''standard_analog_output_1'']] @
      [SendStart])"
    unfolding RTDEIOInterface_setup_def Let_def frequency_choice
    by (intro performs_bindE_version performs_bindE_unit performs_ops)
  then show ?thesis by simp
qed

lemma performs_wire:
  "performs e m cs \<Longrightarrow> wire (snd (m r)) = wire r @ attempt e (length (wire r)) cs"
  by (simp add: performs_def)

lemma performs_isl:
  "performs e m cs \<Longrightarrow> isl (fst (m r)) = (\<exists>i<length cs. raises e (length (wire r) + i))"
  by (simp add: performs_def)

lemmas rtde_defs =
  rtde_invoke_def rtde_connect_def rtde_negotiateProtocolVersion_def
  rtde_getControllerVersion_def rtde_sendOutputSetup_def rtde_sendInputSetup_def
  rtde_sendStart_def rtde_send_def rtde_receiveData_def rtde_disconnect_def
  bindE_def returnE_def

lemma thread_steps_stopped:
  assumes "stop_thread t"
  shows "receive_thread_steps e m t = t"
proof (cases m)
  case 0
  then show ?thesis by simp
next
  case (Suc k)
  have "t\<lparr>stop_thread := True\<rparr> = t" using assms by (cases t) simp
  then show ?thesis using assms Suc by (simp add: Let_def)
qed

lemma thread_steps_frequencies:
  "output_frequencies (wire (receive_thread_steps e m s)) = output_frequencies (wire s)"
proof (induction m arbitrary: s)
  case 0
  then show ?case by simp
next
  case (Suc m)
  show ?case
    by (simp add: Let_def rtde_receiveData_def rtde_invoke_def rtde_disconnect_def Suc.IH
        output_frequencies_append)
qed

lemma recv_reconnect_frequencies:
  "output_frequencies (wire (snd (RTDEReceiveInterface_reconnect e s))) =
   output_frequencies (wire s @ attempt e (length (wire s))
       [Connect, NegotiateProtocolVersion, GetControllerVersion,
        SendOutputSetup (if variables s = [] then default_variables else variables s)
          (if get_MAJOR_VERSION (controller_version e) \<le> 3 then 125 else 500),
        SendStart])"
  unfolding RTDEReceiveInterface_reconnect_def Let_def frequency_choice
  by (simp add: rtde_defs setupRecipes_def start_thread_def sleep_for_def Let_def
      RTDEReceiveInterface_isConnected_def thread_steps_frequencies output_frequencies_append)

lemma recv_ctor_frequencies:
  "output_frequencies (wire (snd (RTDEReceiveInterface_ctor e vars))) =
   output_frequencies (attempt e 0
       [Connect, NegotiateProtocolVersion, GetControllerVersion,
        SendOutputSetup (if vars = [] then default_variables else vars)
          (if get_MAJOR_VERSION (controller_version e) \<le> 3 then 125 else 500),
        SendStart])"
  unfolding RTDEReceiveInterface_ctor_def Let_def frequency_choice
  by (simp add: rtde_defs setupRecipes_def start_thread_def sleep_for_def Let_def
      thread_steps_frequencies)

lemma frequencies_of_setup:
  "output_frequencies
     (attempt e n (Connect # NegotiateProtocolVersion # GetControllerVersion #
                   SendOutputSetup names f # cs)) =
   (if raises e n \<or> raises e (n + 1) \<or> raises e (n + 2) then [] else
    f # (if raises e (n + 3) then [] else output_frequencies (attempt e (n + 4) cs)))"
  by (simp add: numeral_eq_Suc)

lemma frequencies_of_input_setups:
  "output_frequencies
     (attempt e n [SendInputSetup n1, SendInputSetup n2, SendInputSetup n3, SendInputSetup n4,
                   SendInputSetup n5, SendStart]) = []"
  by simp

lemma frequencies_of_start:
  "output_frequencies (attempt e n [SendStart]) = []"
  by simp

section \<open>Results for the output frequency\<close>

text \<open>
  Claim C6. In the constructors and the reconnect paths of both interfaces, the
  frequency passed to sendOutputSetup is 125 exactly when the controller's major version
  is at most 3 and 500 otherwise, for every controller version; the call is reached as
  soon as connect, negotiateProtocolVersion and getControllerVersion have returned, and
  it is the only sendOutputSetup of the sequence.
\<close>

theorem output_frequency_by_major_version:
  "output_frequencies (wire (snd (RTDEIOInterface_ctor e))) =
     (if raises e 0 \<or> raises e 1 \<or> raises e 2 then []
      else [if get_MAJOR_VERSION (controller_version e) \<le> 3 then 125 else 500]) \<and>
   output_frequencies (wire (snd (RTDEIOInterface_reconnect e r))) =
     output_frequencies (wire r) @
     (if raises e (length (wire r)) \<or> raises e (length (wire r) + 1) \<or>
         raises e (length (wire r) + 2) then []
      else [if get_MAJOR_VERSION (controller_version e) \<le> 3 then 125 else 500]) \<and>
   output_frequencies (wire (snd (RTDEReceiveInterface_ctor e vars))) =
     (if raises e 0 \<or> raises e 1 \<or> raises e 2 then []
      else [if get_MAJOR_VERSION (controller_version e) \<le> 3 then 125 else 500]) \<and>
   output_frequencies (wire (snd (RTDEReceiveInterface_reconnect e s))) =
     output_frequencies (wire s) @
     (if raises e (length (wire s)) \<or> raises e (length (wire s) + 1) \<or>
         raises e (length (wire s) + 2) then []
      else [if get_MAJOR_VERSION (controller_version e) \<le> 3 then 125 else 500])"
proof (intro conjI)
  let ?f = "if get_MAJOR_VERSION (controller_version e) \<le> 3 then 125 else (500::real)"
  have w: "wire (snd (RTDEIOInterface_ctor e)) = [] @ attempt e 0
     [Connect, NegotiateProtocolVersion, GetControllerVersion,
      SendOutputSetup [''robot_status_bits'', ''output_int_register_0''] ?f,
      SendInputSetup [''input_int_register_20''],
      SendInputSetup [''input_int_register_20'', ''standard_digital_output_mask'',
                      ''standard_digital_output''],
      SendInputSetup [''input_int_register_20'', ''tool_digital_output_mask'',
                      ''tool_digital_output''],
      SendInputSetup [''input_int_register_20'', ''speed_slider_mask'',
                      ''speed_slider_fraction''],
      SendInputSetup [''input_int_register_2'', ''standard_analog_output_mask'',
                      ''standard_analog_output_type'', ''standard_analog_output_0'',
                      ''standard_analog_output_1''],
      SendStart]"
    unfolding RTDEIOInterface_ctor_def performs_wire [OF performs_io_setup] by simp
  show "output_frequencies (wire (snd (RTDEIOInterface_ctor e))) =
     (if raises e 0 \<or> raises e 1 \<or> raises e 2 then [] else [?f])"
    unfolding w
    by (simp only: append_Nil frequencies_of_setup frequencies_of_input_setups)
      (simp add: numeral_2_eq_2)
next
  let ?f = "if get_MAJOR_VERSION (controller_version e) \<le> 3 then 125 else (500::real)"
  show "output_frequencies (wire (snd (RTDEIOInterface_reconnect e r))) =
     output_frequencies (wire r) @
     (if raises e (length (wire r)) \<or> raises e (length (wire r) + 1) \<or>
         raises e (length (wire r) + 2) then [] else [?f])"
    unfolding performs_wire [OF performs_io_reconnect]
    by (simp only: reconnect_calls_def list.map fst_conv output_frequencies_append
        frequencies_of_setup frequencies_of_input_setups) simp
next
  show "output_frequencies (wire (snd (RTDEReceiveInterface_ctor e vars))) =
     (if raises e 0 \<or> raises e 1 \<or> raises e 2 then []
      else [if get_MAJOR_VERSION (controller_version e) \<le> 3 then 125 else 500])"
    by (simp only: recv_ctor_frequencies frequencies_of_setup frequencies_of_start)
      (simp add: numeral_2_eq_2)
next
  show "output_frequencies (wire (snd (RTDEReceiveInterface_reconnect e s))) =
     output_frequencies (wire s) @
     (if raises e (length (wire s)) \<or> raises e (length (wire s) + 1) \<or>
         raises e (length (wire s) + 2) then []
      else [if get_MAJOR_VERSION (controller_version e) \<le> 3 then 125 else 500])"
    by (simp only: recv_reconnect_frequencies output_frequencies_append frequencies_of_setup
        frequencies_of_start) simp
qed

section \<open>Results for the setup sequences of the I/O facade\<close>

lemma attempt_healthy: "attempt (healthy v) n cs = map (\<lambda>c. (c, True)) cs"
  by (induction cs arbitrary: n) (simp_all add: healthy_def)

text \<open>
  Claim C1, evaluated on the code. On a controller where every call returns, the
  constructor declares five input recipes of which the first four start with
  \<open>input_int_register_20\<close> and the fifth with \<open>input_int_register_2\<close>;
  \<open>reconnect\<close> declares the same five recipes with \<open>input_int_register_20\<close> in
  all of them.
\<close>

theorem io_input_recipes:
  "input_recipes (wire (snd (RTDEIOInterface_ctor (healthy v)))) =
     [[''input_int_register_20''],
      [''input_int_register_20'', ''standard_digital_output_mask'', ''standard_digital_output''],
      [''input_int_register_20'', ''tool_digital_output_mask'', ''tool_digital_output''],
      [''input_int_register_20'', ''speed_slider_mask'', ''speed_slider_fraction''],
      [''input_int_register_2'', ''standard_analog_output_mask'',
       ''standard_analog_output_type'', ''standard_analog_output_0'',
       ''standard_analog_output_1'']] \<and>
   input_recipes (wire (snd (RTDEIOInterface_reconnect (healthy v) r))) =
     input_recipes (wire r) @
     [[''input_int_register_20''],
      [''input_int_register_20'', ''standard_digital_output_mask'', ''standard_digital_output''],
      [''input_int_register_20'', ''tool_digital_output_mask'', ''tool_digital_output''],
      [''input_int_register_20'', ''speed_slider_mask'', ''speed_slider_fraction''],
      [''input_int_register_20'', ''standard_analog_output_mask'',
       ''standard_analog_output_type'', ''standard_analog_output_0'',
       ''standard_analog_output_1'']]"
proof
  show "input_recipes (wire (snd (RTDEIOInterface_ctor (healthy v)))) =
     [[''input_int_register_20''],
      [''input_int_register_20'', ''standard_digital_output_mask'', ''standard_digital_output''],
      [''input_int_register_20'', ''tool_digital_output_mask'', ''tool_digital_output''],
      [''input_int_register_20'', ''speed_slider_mask'', ''speed_slider_fraction''],
      [''input_int_register_2'', ''standard_analog_output_mask'',
       ''standard_analog_output_type'', ''standard_analog_output_0'',
       ''standard_analog_output_1'']]"
    unfolding RTDEIOInterface_ctor_def performs_wire [OF performs_io_setup]
      input_recipes_append attempt_healthy
    by simp
  show "input_recipes (wire (snd (RTDEIOInterface_reconnect (healthy v) r))) =
     input_recipes (wire r) @
     [[''input_int_register_20''],
      [''input_int_register_20'', ''standard_digital_output_mask'', ''standard_digital_output''],
      [''input_int_register_20'', ''tool_digital_output_mask'', ''tool_digital_output''],
      [''input_int_register_20'', ''speed_slider_mask'', ''speed_slider_fraction''],
      [''input_int_register_20'', ''standard_analog_output_mask'',
       ''standard_analog_output_type'', ''standard_analog_output_0'',
       ''standard_analog_output_1'']]"
    unfolding performs_wire [OF performs_io_reconnect]
      input_recipes_append attempt_healthy
    by (simp add: reconnect_calls_def)
qed

section \<open>Results for the two reconnect functions\<close>

lemma yields_bindE:
  assumes "yields m a0" "yields (f a0) b"
  shows "yields (bindE m f) b"
  unfolding yields_def
proof
  fix r
  obtain x r' where mr: "m r = (x, r')" by (cases "m r")
  from assms(1) have "x = Inl SessionError \<or> x = Inr a0"
    using mr by (auto simp: yields_def dest: spec [of _ r])
  then show "fst (bindE m f r) = Inl SessionError \<or> fst (bindE m f r) = Inr b"
    using assms(2) mr by (auto simp: bindE_def yields_def)
qed

lemma yields_bindE_unit:
  fixes m :: "'s \<Rightarrow> (exn + unit) \<times> 's"
  assumes "yields m ()" "yields (f ()) b"
  shows "yields (bindE m f) b"
  using assms by (rule yields_bindE)

lemma yields_ops:
  "yields (rtde_connect e) ()"
  "yields (rtde_negotiateProtocolVersion e) ()"
  "yields (rtde_getControllerVersion e) (controller_version e)"
  "yields (rtde_sendOutputSetup e names f) ()"
  "yields (rtde_sendInputSetup e names) ()"
  "yields (rtde_sendStart e) ()"
  "yields (returnE a) a"
  by (simp_all add: yields_def rtde_invoke_def rtde_connect_def
      rtde_negotiateProtocolVersion_def rtde_getControllerVersion_def rtde_sendOutputSetup_def
      rtde_sendInputSetup_def rtde_sendStart_def returnE_def)

lemma yields_io_reconnect: "yields (RTDEIOInterface_reconnect e) True"
  unfolding RTDEIOInterface_reconnect_def Let_def
  by (intro yields_bindE [OF yields_ops(3)] yields_bindE_unit yields_ops)

lemma isl_sum_cases: "x = Inl a \<or> x = Inr b \<Longrightarrow> x = (if isl x then Inl a else Inr b)"
  by auto

lemma thread_steps_stay_connected:
  assumes "\<forall>j<m. \<not> raises e (length (wire t) + j)" "rtde_isConnected t"
  shows "rtde_isConnected (receive_thread_steps e m t)"
  using assms
proof (induction m arbitrary: t)
  case 0
  then show ?case by simp
next
  case (Suc m)
  let ?t1 = "t\<lparr>wire := wire t @ [(ReceiveData, True)]\<rparr>"
  have first: "\<not> raises e (length (wire t))"
    using Suc.prems(1) by (auto dest: spec [of _ 0])
  have "\<forall>j<m. \<not> raises e (length (wire ?t1) + j)"
  proof (intro allI impI)
    fix j assume "j < m"
    then have "Suc j < Suc m" by simp
    then have "\<not> raises e (length (wire t) + Suc j)" using Suc.prems(1) by blast
    then show "\<not> raises e (length (wire ?t1) + j)" by simp
  qed
  moreover have "rtde_isConnected ?t1" using Suc.prems(2) by (simp add: rtde_isConnected_def)
  ultimately have ih: "rtde_isConnected (receive_thread_steps e m ?t1)" by (rule Suc.IH)
  show ?case
  proof (cases "stop_thread t \<or> stop_requested e (length (wire t))")
    case True
    then show ?thesis
      using Suc.prems(2) by (auto simp: Let_def rtde_isConnected_def)
  next
    case False
    then show ?thesis
      using first ih by (simp add: Let_def rtde_receiveData_def rtde_invoke_def)
  qed
qed

lemma thread_steps_first_fails:
  assumes "0 < m" "\<not> stop_thread t" "\<not> stop_requested e (length (wire t))"
    "raises e (length (wire t))"
  shows "\<not> rtde_isConnected (receive_thread_steps e m t)"
proof -
  obtain k where m: "m = Suc k" using assms(1) by (cases m) auto
  define t4 where "t4 =
    (let t1 = t\<lparr>wire := wire t @ [(ReceiveData, False)]\<rparr>;
         t2 = t1\<lparr>cerr := cerr t1 @ [What SessionError]\<rparr>;
         t3 = (if rtde_isConnected t2 then rtde_disconnect t2 else t2)
     in t3\<lparr>stop_thread := True\<rparr>)"
  have "receive_thread_steps e m t = receive_thread_steps e k t4"
    using assms(2-4) unfolding m t4_def
    by (simp add: Let_def rtde_receiveData_def rtde_invoke_def)
  moreover have "stop_thread t4" by (simp add: t4_def Let_def)
  moreover have "\<not> rtde_isConnected t4"
    by (simp add: t4_def Let_def rtde_isConnected_def rtde_disconnect_def)
  ultimately show ?thesis by (simp add: thread_steps_stopped)
qed

text \<open>
  The passes of the receive thread are passes of \<open>receiveCallback\<close>: the loop
  goes on from the state they leave as it does from the start.
\<close>

lemma receiveCallback_after_steps:
  "receiveCallback e (receive_thread_steps e m s) = receiveCallback e s"
proof (induction m arbitrary: s)
  case 0
  show ?case by simp
next
  case (Suc m)
  show ?case
  proof (cases "stop_thread s \<or> stop_requested e (length (wire s))")
    case True
    then have a: "receive_thread_steps e (Suc m) s = s\<lparr>stop_thread := True\<rparr>"
      by (cases s) (auto simp: Let_def)
    have b: "receiveCallback e s = Some (s\<lparr>stop_thread := True\<rparr>)"
      using True by (subst receiveCallback.simps) (cases s, auto simp: Let_def)
    have c: "receiveCallback e (s\<lparr>stop_thread := True\<rparr>) = Some (s\<lparr>stop_thread := True\<rparr>)"
      by (subst receiveCallback.simps) (simp add: Let_def)
    show ?thesis unfolding a b c ..
  next
    case False
    then show ?thesis
      apply (subst (2) receiveCallback.simps)
      apply (simp add: Let_def Suc.IH split: prod.splits sum.splits)
      done
  qed
qed

lemma recv_reconnect_returns:
  assumes "\<not> (\<exists>i<5. raises e (length (wire s) + i))"
  shows "RTDEReceiveInterface_reconnect e s =
         (let t = receive_thread_steps e (thread_progress e (length (wire s) + 5))
                    (s\<lparr>rtde_conn_state := STARTED,
                       wire := wire s @
                         [(Connect, True), (NegotiateProtocolVersion, True),
                          (GetControllerVersion, True),
                          (SendOutputSetup
                             (if variables s = [] then default_variables else variables s)
                             (if get_MAJOR_VERSION (controller_version e) \<le> 3 then 125 else 500),
                           True),
                          (SendStart, True)],
                       variables := (if variables s = [] then default_variables else variables s),
                       stop_thread := False,
                       threads_started := Suc (threads_started s)\<rparr>)
          in (Inr (rtde_isConnected t), t))"
proof -
  let ?n = "length (wire s)"
  have f: "\<not> raises e ?n" "\<not> raises e (Suc ?n)" "\<not> raises e (Suc (Suc ?n))"
    "\<not> raises e (Suc (Suc (Suc ?n)))" "\<not> raises e (Suc (Suc (Suc (Suc ?n))))"
    using assms by (auto simp: numeral_eq_Suc Ex_less_Suc)
  have five: "Suc (Suc (Suc (Suc (Suc k)))) = k + 5" for k :: nat by simp
  show ?thesis
    using f unfolding RTDEReceiveInterface_reconnect_def Let_def frequency_choice
    by (cases s)
      (simp add: rtde_defs setupRecipes_def start_thread_def sleep_for_def Let_def
        RTDEReceiveInterface_isConnected_def five)
qed

text \<open>
  Claim C9. \<open>RTDEIOInterface::reconnect\<close> returns true whenever it returns: its result
  is the constant true unless one of its ten calls on the session raises, whatever state
  the session is left in. The result of \<open>RTDEReceiveInterface::reconnect\<close> is the
  connection status \<open>isConnected()\<close> read from the session at the end, after the new
  receive thread has run during the sleep: it is false when the thread's first receive
  has raised by then, and true when no receive has raised.
\<close>

theorem reconnect_results:
  "fst (RTDEIOInterface_reconnect e r) =
     (if \<exists>i<10. raises e (length (wire r) + i) then Inl SessionError else Inr True) \<and>
   fst (RTDEReceiveInterface_reconnect e s) =
     (if \<exists>i<5. raises e (length (wire s) + i) then Inl SessionError
      else Inr (RTDEReceiveInterface_isConnected (snd (RTDEReceiveInterface_reconnect e s)))) \<and>
   (\<not> (\<exists>i<5. raises e (length (wire s) + i)) \<and>
    0 < thread_progress e (length (wire s) + 5) \<and>
    \<not> stop_requested e (length (wire s) + 5) \<and> raises e (length (wire s) + 5) \<longrightarrow>
      fst (RTDEReceiveInterface_reconnect e s) = Inr False) \<and>
   (\<not> (\<exists>i<5. raises e (length (wire s) + i)) \<and>
    (\<forall>j<thread_progress e (length (wire s) + 5). \<not> raises e (length (wire s) + 5 + j)) \<longrightarrow>
      fst (RTDEReceiveInterface_reconnect e s) = Inr True)"
proof (intro conjI impI)
  have len: "length (map fst (reconnect_calls m)) = 10" for m
    by (simp add: reconnect_calls_def)
  have "isl (fst (RTDEIOInterface_reconnect e r)) = (\<exists>i<10. raises e (length (wire r) + i))"
    unfolding performs_isl [OF performs_io_reconnect] len by (rule refl)
  moreover have "fst (RTDEIOInterface_reconnect e r) = Inl SessionError \<or>
        fst (RTDEIOInterface_reconnect e r) = Inr True"
    using yields_io_reconnect [of e] by (simp add: yields_def)
  ultimately show "fst (RTDEIOInterface_reconnect e r) =
     (if \<exists>i<10. raises e (length (wire r) + i) then Inl SessionError else Inr True)"
    using isl_sum_cases by metis
next
  have five: "(\<exists>i<5. raises e (length (wire s) + i)) =
    (raises e (length (wire s)) \<or> raises e (Suc (length (wire s))) \<or>
     raises e (Suc (Suc (length (wire s)))) \<or> raises e (Suc (Suc (Suc (length (wire s))))) \<or>
     raises e (Suc (Suc (Suc (Suc (length (wire s)))))))"
    by (simp add: numeral_eq_Suc Ex_less_Suc2)
  show "fst (RTDEReceiveInterface_reconnect e s) =
     (if \<exists>i<5. raises e (length (wire s) + i) then Inl SessionError
      else Inr (RTDEReceiveInterface_isConnected (snd (RTDEReceiveInterface_reconnect e s))))"
    unfolding five RTDEReceiveInterface_reconnect_def Let_def frequency_choice
    by (simp add: rtde_defs setupRecipes_def start_thread_def sleep_for_def Let_def
        RTDEReceiveInterface_isConnected_def)
next
  assume a: "\<not> (\<exists>i<5. raises e (length (wire s) + i)) \<and>
    0 < thread_progress e (length (wire s) + 5) \<and>
    \<not> stop_requested e (length (wire s) + 5) \<and> raises e (length (wire s) + 5)"
  then have ok: "\<not> (\<exists>i<5. raises e (length (wire s) + i))" by blast
  let ?t = "s\<lparr>rtde_conn_state := STARTED,
       wire := wire s @
         [(Connect, True), (NegotiateProtocolVersion, True), (GetControllerVersion, True),
          (SendOutputSetup
             (if variables s = [] then default_variables else variables s)
             (if get_MAJOR_VERSION (controller_version e) \<le> 3 then 125 else 500),
           True),
          (SendStart, True)],
       variables := (if variables s = [] then default_variables else variables s),
       stop_thread := False,
       threads_started := Suc (threads_started s)\<rparr>"
  have "\<not> rtde_isConnected
          (receive_thread_steps e (thread_progress e (length (wire s) + 5)) ?t)"
    using a by (intro thread_steps_first_fails) (simp_all add: numeral_eq_Suc)
  then show "fst (RTDEReceiveInterface_reconnect e s) = Inr False"
    unfolding recv_reconnect_returns [OF ok] Let_def by simp
next
  assume a: "\<not> (\<exists>i<5. raises e (length (wire s) + i)) \<and>
    (\<forall>j<thread_progress e (length (wire s) + 5). \<not> raises e (length (wire s) + 5 + j))"
  then have ok: "\<not> (\<exists>i<5. raises e (length (wire s) + i))" by blast
  let ?t = "s\<lparr>rtde_conn_state := STARTED,
       wire := wire s @
         [(Connect, True), (NegotiateProtocolVersion, True), (GetControllerVersion, True),
          (SendOutputSetup
             (if variables s = [] then default_variables else variables s)
             (if get_MAJOR_VERSION (controller_version e) \<le> 3 then 125 else 500),
           True),
          (SendStart, True)],
       variables := (if variables s = [] then default_variables else variables s),
       stop_thread := False,
       threads_started := Suc (threads_started s)\<rparr>"
  have "rtde_isConnected
          (receive_thread_steps e (thread_progress e (length (wire s) + 5)) ?t)"
    using a by (intro thread_steps_stay_connected)
      (simp_all add: rtde_isConnected_def numeral_eq_Suc)
  then show "fst (RTDEReceiveInterface_reconnect e s) = Inr True"
    unfolding recv_reconnect_returns [OF ok] Let_def by simp
qed

text \<open>
  A disconnected receive interface reconnects to a controller that fails the first
  receive of the new thread, and to one that does not.
\<close>

theorem reconnect_results_witness:
  "\<not> (\<exists>i<5. raises first_receive_fails i) \<and> 0 < thread_progress first_receive_fails 5 \<and>
   \<not> stop_requested first_receive_fails 5 \<and> raises first_receive_fails 5 \<and>
   fst (RTDEReceiveInterface_reconnect first_receive_fails
          \<lparr>cout = [], cerr = [], rtde_conn_state = DISCONNECTED, wire = [],
           variables = [''timestamp''], stop_thread = True, threads_started = 1\<rparr>) = Inr False \<and>
   \<not> (\<exists>i<5. raises first_receive_returns i) \<and> \<not> raises first_receive_returns 5 \<and>
   fst (RTDEReceiveInterface_reconnect first_receive_returns
          \<lparr>cout = [], cerr = [], rtde_conn_state = DISCONNECTED, wire = [],
           variables = [''timestamp''], stop_thread = True, threads_started = 1\<rparr>) = Inr True"
proof -
  let ?s = "\<lparr>cout = [], cerr = [], rtde_conn_state = DISCONNECTED, wire = [],
           variables = [''timestamp''], stop_thread = True, threads_started = 1\<rparr>"
  have a: "\<not> (\<exists>i<5. raises first_receive_fails (length (wire ?s) + i)) \<and>
    0 < thread_progress first_receive_fails (length (wire ?s) + 5) \<and>
    \<not> stop_requested first_receive_fails (length (wire ?s) + 5) \<and>
    raises first_receive_fails (length (wire ?s) + 5)"
    by (simp add: first_receive_fails_def)
  have b: "\<not> (\<exists>i<5. raises first_receive_returns (length (wire ?s) + i)) \<and>
    (\<forall>j<thread_progress first_receive_returns (length (wire ?s) + 5).
        \<not> raises first_receive_returns (length (wire ?s) + 5 + j))"
    by (simp add: first_receive_returns_def)
  have c: "fst (RTDEReceiveInterface_reconnect first_receive_fails ?s) = Inr False"
    using reconnect_results [of first_receive_fails _ ?s] a by blast
  have d: "fst (RTDEReceiveInterface_reconnect first_receive_returns ?s) = Inr True"
    using reconnect_results [of first_receive_returns _ ?s] b by blast
  show ?thesis
    using c d by (simp add: first_receive_fails_def first_receive_returns_def)
qed

section \<open>Results for verifyValueIsWithin\<close>

text \<open>
  Claim C5. For bounds that are not NaN, \<open>verifyValueIsWithin\<close> returns normally
  exactly when the value is not a NaN and lies between the bounds; a NaN value raises
  \<open>std::invalid_argument\<close>, any other value outside the bounds raises
  \<open>std::range_error\<close>, and the session is left as it was, so no frame is emitted.
\<close>

theorem verifyValueIsWithin_result:
  assumes "\<not> isnan min_v" "\<not> isnan max_v"
  shows "fst (verifyValueIsWithin val min_v max_v r) =
           (if isnan val then Inl InvalidArgument
            else if double_le min_v val \<and> double_le val max_v then Inr ()
            else Inl RangeError) \<and>
         (fst (verifyValueIsWithin val min_v max_v r) = Inr ()) =
           (\<not> isnan val \<and> double_le min_v val \<and> double_le val max_v) \<and>
         snd (verifyValueIsWithin val min_v max_v r) = r"
  using assms
  by (simp add: verifyValueIsWithin_def isgreaterequal_def islessequal_def)

theorem verifyValueIsWithin_result_witness:
  "\<not> isnan (Finite 0) \<and> \<not> isnan (Finite 1) \<and>
   fst (verifyValueIsWithin (Finite (1 / 2)) (Finite 0) (Finite 1)
          \<lparr>cout = [], cerr = [], rtde_conn_state = STARTED, wire = []\<rparr>) = Inr () \<and>
   fst (verifyValueIsWithin (Finite 2) (Finite 0) (Finite 1)
          \<lparr>cout = [], cerr = [], rtde_conn_state = STARTED, wire = []\<rparr>) = Inl RangeError \<and>
   fst (verifyValueIsWithin NaN (Finite 0) (Finite 1)
          \<lparr>cout = [], cerr = [], rtde_conn_state = STARTED, wire = []\<rparr>) = Inl InvalidArgument \<and>
   wire (snd (verifyValueIsWithin (Finite 2) (Finite 0) (Finite 1)
          \<lparr>cout = [], cerr = [], rtde_conn_state = STARTED, wire = []\<rparr>)) = []"
proof -
  have a: "\<not> isnan (Finite 0)" and b: "\<not> isnan (Finite 1)" by (simp_all add: isnan_def)
  show ?thesis
    using a b verifyValueIsWithin_result [OF a b, of "Finite (1 / 2)"]
      verifyValueIsWithin_result [OF a b, of "Finite 2"]
      verifyValueIsWithin_result [OF a b, of NaN]
    by (simp add: isnan_def)
qed

section \<open>Results for sendCommand\<close>

lemma agrees_append:
  "agrees e n (w @ w') = (agrees e n w \<and> agrees e (n + length w) w')"
  by (induction w arbitrary: n) auto

lemma sendCommand_sent:
  assumes "\<not> raises e (length (wire r))"
  shows "sendCommand e cmd r = Some (Inr True, r\<lparr>wire := wire r @ [(Send cmd, True)]\<rparr>)"
  using assms
  by (subst sendCommand.simps) (simp add: rtde_send_def rtde_invoke_def)

lemma reconnect_restores:
  assumes "agrees e (length (wire r)) (reconnect_calls m)"
  shows "RTDEIOInterface_reconnect e r =
         (Inr True, r\<lparr>rtde_conn_state := STARTED,
                      wire := wire r @ reconnect_calls (get_MAJOR_VERSION (controller_version e))\<rparr>)"
proof -
  let ?n = "length (wire r)"
  have f: "\<not> raises e ?n" "\<not> raises e (Suc ?n)" "\<not> raises e (Suc (Suc ?n))"
    "\<not> raises e (Suc (Suc (Suc ?n)))" "\<not> raises e (Suc (Suc (Suc (Suc ?n))))"
    "\<not> raises e (Suc (Suc (Suc (Suc (Suc ?n)))))"
    "\<not> raises e (Suc (Suc (Suc (Suc (Suc (Suc ?n))))))"
    "\<not> raises e (Suc (Suc (Suc (Suc (Suc (Suc (Suc ?n)))))))"
    "\<not> raises e (Suc (Suc (Suc (Suc (Suc (Suc (Suc (Suc ?n))))))))"
    "\<not> raises e (Suc (Suc (Suc (Suc (Suc (Suc (Suc (Suc (Suc ?n)))))))))"
    using assms by (simp_all add: reconnect_calls_def)
  show ?thesis
    unfolding RTDEIOInterface_reconnect_def Let_def frequency_choice
    by (simp add: rtde_defs f reconnect_calls_def)
qed

lemma sendCommand_failed_send:
  assumes f: "raises e (length (wire r))"
    and ok: "agrees e (length (wire r) + (if rtde_isConnected r then 2 else 1))
               (reconnect_calls (get_MAJOR_VERSION (controller_version e)))"
  shows "sendCommand e cmd r =
         Option.bind
           (sendCommand e cmd
              (r\<lparr>cout := cout r @ [Msg ''RTDEIOInterface: Lost connection to robot...'',
                                    Msg ''RTDEIOInterface: Robot is disconnected, reconnecting...''],
                 cerr := cerr r @ [What SessionError],
                 rtde_conn_state := STARTED,
                 wire := wire r @ (Send cmd, False) #
                         (if rtde_isConnected r then [(Disconnect, True)] else []) @
                         reconnect_calls (get_MAJOR_VERSION (controller_version e))\<rparr>))
           (\<lambda>res. case res of
                     (Inl ex, r6) \<Rightarrow> Some (Inl ex, r6)
                   | (Inr b, r6) \<Rightarrow> Some (Inl Undefined, r6))"
proof -
  let ?lost = "Msg ''RTDEIOInterface: Lost connection to robot...''"
  let ?again = "Msg ''RTDEIOInterface: Robot is disconnected, reconnecting...''"
  let ?calls = "reconnect_calls (get_MAJOR_VERSION (controller_version e))"
  let ?d = "if rtde_isConnected r then [(Disconnect, True)] else []"
  let ?r4 = "r\<lparr>cout := cout r @ [?lost, ?again], cerr := cerr r @ [What SessionError],
               rtde_conn_state := DISCONNECTED, wire := wire r @ (Send cmd, False) # ?d\<rparr>"
  let ?r5 = "r\<lparr>cout := cout r @ [?lost, ?again], cerr := cerr r @ [What SessionError],
               rtde_conn_state := STARTED, wire := wire r @ (Send cmd, False) # ?d @ ?calls\<rparr>"
  have len: "length (wire ?r4) = length (wire r) + (if rtde_isConnected r then 2 else 1)"
    by simp
  have ok4: "agrees e (length (wire ?r4)) ?calls"
    unfolding len by (rule ok)
  have rec: "RTDEIOInterface_reconnect e ?r4 = (Inr True, ?r5)"
    unfolding reconnect_restores [OF ok4] by (cases r) simp
  have "sendCommand e cmd r =
        (case RTDEIOInterface_reconnect e ?r4 of
           (Inl ex', r5) \<Rightarrow> Some (Inl ex', r5)
         | (Inr b, r5) \<Rightarrow>
             Option.bind (sendCommand e cmd r5)
               (\<lambda>res. case res of
                         (Inl ex'', r6) \<Rightarrow> Some (Inl ex'', r6)
                       | (Inr b', r6) \<Rightarrow> Some (Inl Undefined, r6)))"
  proof -
    let ?r4' = "(let r1 = r\<lparr>wire := wire r @ [(Send cmd, False)]\<rparr>;
                    r2 = r1\<lparr>cout := cout r1 @ [?lost], cerr := cerr r1 @ [What SessionError]\<rparr>;
                    r3 = (if rtde_isConnected r2 then rtde_disconnect r2 else r2)
                in r3\<lparr>cout := cout r3 @ [?again]\<rparr>)"
    have eq: "?r4' = ?r4"
      by (cases r) (simp add: Let_def rtde_isConnected_def rtde_disconnect_def)
    have "sendCommand e cmd r =
        (case RTDEIOInterface_reconnect e ?r4' of
           (Inl ex', r5) \<Rightarrow> Some (Inl ex', r5)
         | (Inr b, r5) \<Rightarrow>
             Option.bind (sendCommand e cmd r5)
               (\<lambda>res. case res of
                         (Inl ex'', r6) \<Rightarrow> Some (Inl ex'', r6)
                       | (Inr b', r6) \<Rightarrow> Some (Inl Undefined, r6)))"
      apply (subst sendCommand.simps)
      using f
      apply (simp add: rtde_send_def rtde_invoke_def rtde_isConnected_def rtde_disconnect_def
          Let_def)
      done
    then show ?thesis unfolding eq .
  qed
  then show ?thesis unfolding rec by simp
qed

text \<open>
  Claim C2, as amended. When \<open>RTDE::send\<close> raises inside \<open>sendCommand\<close>, the
  exception is caught and written to \<open>std::cerr\<close>, and the session is disconnected if
  it is connected; the error is not passed on. \<open>sendCommand\<close> then calls
  \<open>reconnect\<close> itself and sends the same command again, as often as the send keeps
  failing: after \<open>k\<close> failed sends, each followed by a reconnect that succeeds, and one
  send that is accepted, the command has been handed to the session \<open>k + 1\<close> times and
  the session is connected again. The call returns true when the first send is accepted
  (\<open>k = 0\<close>); after a retry control reaches the end of the function, which has no
  return statement, so the behaviour of the call is undefined.
\<close>

theorem sendCommand_reconnects_and_retries:
  assumes "agrees e (length (wire r))
             (retry_wire (rtde_isConnected r) (get_MAJOR_VERSION (controller_version e)) cmd k)"
  shows "sendCommand e cmd r =
         Some (if k = 0 then Inr True else Inl Undefined,
               r\<lparr>cout := cout r @ concat (replicate k
                             [Msg ''RTDEIOInterface: Lost connection to robot...'',
                              Msg ''RTDEIOInterface: Robot is disconnected, reconnecting...'']),
                  cerr := cerr r @ replicate k (What SessionError),
                  rtde_conn_state := (if k = 0 then rtde_conn_state r else STARTED),
                  wire := wire r @
                    retry_wire (rtde_isConnected r)
                      (get_MAJOR_VERSION (controller_version e)) cmd k\<rparr>)"
  using assms
proof (induction k arbitrary: r)
  case 0
  then show ?case by (simp add: sendCommand_sent)
next
  case (Suc k)
  let ?lost = "Msg ''RTDEIOInterface: Lost connection to robot...''"
  let ?again = "Msg ''RTDEIOInterface: Robot is disconnected, reconnecting...''"
  let ?calls = "reconnect_calls (get_MAJOR_VERSION (controller_version e))"
  let ?d = "if rtde_isConnected r then [(Disconnect, True)] else []"
  let ?r5 = "r\<lparr>cout := cout r @ [?lost, ?again],
               cerr := cerr r @ [What SessionError],
               rtde_conn_state := STARTED,
               wire := wire r @ (Send cmd, False) # ?d @ ?calls\<rparr>"
  have split: "agrees e (length (wire r))
                 ([(Send cmd, False)] @ ?d @ ?calls @
                  retry_wire True (get_MAJOR_VERSION (controller_version e)) cmd k)"
    using Suc.prems by simp
  have first: "raises e (length (wire r))"
    using split by simp
  have ok: "agrees e (length (wire r) + (if rtde_isConnected r then 2 else 1)) ?calls"
    using split unfolding agrees_append by (simp split: if_splits)
  have c5: "rtde_isConnected ?r5" by (simp add: rtde_isConnected_def)
  have later: "agrees e (length (wire ?r5))
                 (retry_wire (rtde_isConnected ?r5)
                    (get_MAJOR_VERSION (controller_version e)) cmd k)"
    using split by (cases "rtde_isConnected r") (simp_all add: agrees_append rtde_isConnected_def)
  note ih = Suc.IH [OF later]
  show ?case
    unfolding sendCommand_failed_send [OF first ok] ih
    by (cases r) (simp add: rtde_isConnected_def)
qed

text \<open>Two sends fail, each followed by a reconnect that succeeds; the third send is
  accepted.\<close>

theorem sendCommand_reconnects_and_retries_witness:
  "agrees two_failed_calls 0 (retry_wire True 5 \<lparr>cmd_type = SET_STD_DIGITAL_OUT, recipe_id = 2, std_digital_out_mask = 8,
      std_digital_out = 8\<rparr> 2) \<and>
   sendCommand two_failed_calls \<lparr>cmd_type = SET_STD_DIGITAL_OUT, recipe_id = 2, std_digital_out_mask = 8,
      std_digital_out = 8\<rparr>
     \<lparr>cout = [], cerr = [], rtde_conn_state = STARTED, wire = []\<rparr> =
   Some (Inl Undefined,
     \<lparr>cout = [Msg ''RTDEIOInterface: Lost connection to robot...'',
              Msg ''RTDEIOInterface: Robot is disconnected, reconnecting...'',
              Msg ''RTDEIOInterface: Lost connection to robot...'',
              Msg ''RTDEIOInterface: Robot is disconnected, reconnecting...''],
      cerr = [What SessionError, What SessionError],
      rtde_conn_state = STARTED,
      wire =
        (Send \<lparr>cmd_type = SET_STD_DIGITAL_OUT, recipe_id = 2, std_digital_out_mask = 8,
      std_digital_out = 8\<rparr>, False) # (Disconnect, True) # reconnect_calls 5 @
        (Send \<lparr>cmd_type = SET_STD_DIGITAL_OUT, recipe_id = 2, std_digital_out_mask = 8,
      std_digital_out = 8\<rparr>, False) # (Disconnect, True) # reconnect_calls 5 @
        [(Send \<lparr>cmd_type = SET_STD_DIGITAL_OUT, recipe_id = 2, std_digital_out_mask = 8,
      std_digital_out = 8\<rparr>, True)]\<rparr>)"
proof -
  let ?r = "\<lparr>cout = [], cerr = [], rtde_conn_state = STARTED, wire = []\<rparr>"
  let ?cmd = "\<lparr>cmd_type = SET_STD_DIGITAL_OUT, recipe_id = 2, std_digital_out_mask = 8,
      std_digital_out = 8\<rparr>"
  have a: "agrees two_failed_calls (length (wire ?r))
             (retry_wire (rtde_isConnected ?r)
                (get_MAJOR_VERSION (controller_version two_failed_calls)) ?cmd 2)"
    by (simp add: two_failed_calls_def get_MAJOR_VERSION_def rtde_isConnected_def
        numeral_2_eq_2 reconnect_calls_def)
  show ?thesis
    using sendCommand_reconnects_and_retries [OF a] a
    by (simp add: two_failed_calls_def get_MAJOR_VERSION_def rtde_isConnected_def
        numeral_2_eq_2)
qed

text \<open>
  The claim as first stated fails on a single failed send: the exception of the send does
  not reach the caller, the session has been reconnected by \<open>sendCommand\<close> itself, and
  the command has been handed to the session a second time.
\<close>

theorem sendCommand_retries_counterexample:
  "sendCommand one_failed_call \<lparr>cmd_type = SET_STD_DIGITAL_OUT, recipe_id = 2, std_digital_out_mask = 8,
      std_digital_out = 8\<rparr>
     \<lparr>cout = [], cerr = [], rtde_conn_state = STARTED, wire = []\<rparr> =
   Some (Inl Undefined,
     \<lparr>cout = [Msg ''RTDEIOInterface: Lost connection to robot...'',
              Msg ''RTDEIOInterface: Robot is disconnected, reconnecting...''],
      cerr = [What SessionError],
      rtde_conn_state = STARTED,
      wire =
        (Send \<lparr>cmd_type = SET_STD_DIGITAL_OUT, recipe_id = 2, std_digital_out_mask = 8,
      std_digital_out = 8\<rparr>, False) # (Disconnect, True) # reconnect_calls 5 @
        [(Send \<lparr>cmd_type = SET_STD_DIGITAL_OUT, recipe_id = 2, std_digital_out_mask = 8,
      std_digital_out = 8\<rparr>, True)]\<rparr>)"
proof -
  let ?r = "\<lparr>cout = [], cerr = [], rtde_conn_state = STARTED, wire = []\<rparr>"
  let ?cmd = "\<lparr>cmd_type = SET_STD_DIGITAL_OUT, recipe_id = 2, std_digital_out_mask = 8,
      std_digital_out = 8\<rparr>"
  let ?r5 = "?r\<lparr>cout := cout ?r @ [Msg ''RTDEIOInterface: Lost connection to robot...'',
                                    Msg ''RTDEIOInterface: Robot is disconnected, reconnecting...''],
                 cerr := cerr ?r @ [What SessionError],
                 rtde_conn_state := STARTED,
                 wire := wire ?r @ (Send ?cmd, False) #
                         (if rtde_isConnected ?r then [(Disconnect, True)] else []) @
                         reconnect_calls (get_MAJOR_VERSION (controller_version one_failed_call))\<rparr>"
  have a: "raises one_failed_call (length (wire ?r))" by (simp add: one_failed_call_def)
  have c: "agrees one_failed_call (length (wire ?r) + (if rtde_isConnected ?r then 2 else 1))
             (reconnect_calls (get_MAJOR_VERSION (controller_version one_failed_call)))"
    by (simp add: one_failed_call_def reconnect_calls_def rtde_isConnected_def)
  have d: "\<not> raises one_failed_call (length (wire ?r5))"
    by (simp add: one_failed_call_def reconnect_calls_def)
  show ?thesis
    unfolding sendCommand_failed_send [OF a c, of ?cmd] sendCommand_sent [OF d, of ?cmd]
    by (simp add: one_failed_call_def get_MAJOR_VERSION_def rtde_isConnected_def)
qed

section \<open>Results for setStandardDigitalOut\<close>

text \<open>
  Claim C4, as amended. For every output id from 0 to 7 and every level,
  \<open>setStandardDigitalOut\<close> hands \<open>sendCommand\<close> the command on recipe 2 whose mask
  is 2 to the power of the id and whose value is the mask when the level is true and 0
  when it is false; the mask has the bit of the id set and no other, the value has no bit
  set outside the mask. When \<open>RTDE::send\<close> does not raise on that command, the call
  returns true and exactly that one command has been sent, and nothing else has changed.
\<close>

theorem setStandardDigitalOut_frame:
  assumes "unat output_id < 8"
  shows "let cmd = \<lparr>cmd_type = SET_STD_DIGITAL_OUT, recipe_id = 2,
                    std_digital_out_mask = 2 ^ unat output_id,
                    std_digital_out = (if signal_level then 2 ^ unat output_id else 0)\<rparr>
         in setStandardDigitalOut e output_id signal_level r = sendCommand e cmd r \<and>
            (\<not> raises e (length (wire r)) \<longrightarrow>
               setStandardDigitalOut e output_id signal_level r =
                 Some (Inr True, r\<lparr>wire := wire r @ [(Send cmd, True)]\<rparr>)) \<and>
            (\<forall>i. bit (std_digital_out_mask cmd) i = (i = unat output_id)) \<and>
            (\<forall>i. bit (std_digital_out cmd) i = (signal_level \<and> i = unat output_id))"
proof -
  let ?cmd = "\<lparr>cmd_type = SET_STD_DIGITAL_OUT, recipe_id = 2,
                    std_digital_out_mask = 2 ^ unat output_id,
                    std_digital_out = (if signal_level then 2 ^ unat output_id else 0)\<rparr>"
  have eq: "setStandardDigitalOut e output_id signal_level r = sendCommand e ?cmd r"
    using assms by (simp add: setStandardDigitalOut_def pow2_as_uint8_def)
  have bits: "bit (2 ^ unat output_id :: u8) i = (i = unat output_id)" for i
    using assms by (auto simp: bit_exp_iff)
  show ?thesis
    unfolding Let_def eq
    using sendCommand_sent [of e r ?cmd] bits
    by auto
qed

theorem setStandardDigitalOut_frame_witness:
  "unat (3 :: u8) < 8 \<and> \<not> raises (healthy (5, 10, 0, 0)) 0 \<and>
   setStandardDigitalOut (healthy (5, 10, 0, 0)) 3 True
     \<lparr>cout = [], cerr = [], rtde_conn_state = STARTED, wire = []\<rparr> =
   Some (Inr True,
     \<lparr>cout = [], cerr = [], rtde_conn_state = STARTED,
      wire = [(Send \<lparr>cmd_type = SET_STD_DIGITAL_OUT, recipe_id = 2,
                      std_digital_out_mask = 8, std_digital_out = 8\<rparr>, True)]\<rparr>)"
proof -
  have a: "unat (3 :: u8) < 8" by simp
  show ?thesis
    using setStandardDigitalOut_frame [OF a, of True "healthy (5, 10, 0, 0)"
        "\<lparr>cout = [], cerr = [], rtde_conn_state = STARTED, wire = []\<rparr>",
        unfolded Let_def, THEN conjunct2, THEN conjunct1]
    by (simp add: healthy_def)
qed

text \<open>
  The claim as first stated fails when \<open>RTDE::send\<close> raises. With only the first call
  failing the command is handed to the session twice; with the first connect of the
  reconnect failing as well, the call ends in the session's exception and no command has
  been accepted.
\<close>

theorem setStandardDigitalOut_sends_counterexample:
  "setStandardDigitalOut one_failed_call 3 True
     \<lparr>cout = [], cerr = [], rtde_conn_state = STARTED, wire = []\<rparr> =
   Some (Inl Undefined,
     \<lparr>cout = [Msg ''RTDEIOInterface: Lost connection to robot...'',
              Msg ''RTDEIOInterface: Robot is disconnected, reconnecting...''],
      cerr = [What SessionError],
      rtde_conn_state = STARTED,
      wire =
        (Send \<lparr>cmd_type = SET_STD_DIGITAL_OUT, recipe_id = 2, std_digital_out_mask = 8,
      std_digital_out = 8\<rparr>, False) # (Disconnect, True) # reconnect_calls 5 @
        [(Send \<lparr>cmd_type = SET_STD_DIGITAL_OUT, recipe_id = 2, std_digital_out_mask = 8,
      std_digital_out = 8\<rparr>, True)]\<rparr>) \<and>
   setStandardDigitalOut send_and_connect_fail 3 True
     \<lparr>cout = [], cerr = [], rtde_conn_state = STARTED, wire = []\<rparr> =
   Some (Inl SessionError,
     \<lparr>cout = [Msg ''RTDEIOInterface: Lost connection to robot...'',
              Msg ''RTDEIOInterface: Robot is disconnected, reconnecting...''],
      cerr = [What SessionError],
      rtde_conn_state = DISCONNECTED,
      wire = [(Send \<lparr>cmd_type = SET_STD_DIGITAL_OUT, recipe_id = 2, std_digital_out_mask = 8,
      std_digital_out = 8\<rparr>, False), (Disconnect, True), (Connect, False)]\<rparr>)"
proof -
  let ?r = "\<lparr>cout = [], cerr = [], rtde_conn_state = STARTED, wire = []\<rparr>"
  let ?cmd = "\<lparr>cmd_type = SET_STD_DIGITAL_OUT, recipe_id = 2, std_digital_out_mask = 8,
      std_digital_out = 8\<rparr>"
  let ?r5 = "?r\<lparr>cout := cout ?r @ [Msg ''RTDEIOInterface: Lost connection to robot...'',
                                    Msg ''RTDEIOInterface: Robot is disconnected, reconnecting...''],
                 cerr := cerr ?r @ [What SessionError],
                 rtde_conn_state := STARTED,
                 wire := wire ?r @ (Send ?cmd, False) #
                         (if rtde_isConnected ?r then [(Disconnect, True)] else []) @
                         reconnect_calls (get_MAJOR_VERSION (controller_version one_failed_call))\<rparr>"
  have eq: "setStandardDigitalOut e 3 True ?r = sendCommand e ?cmd ?r" for e
    by (simp add: setStandardDigitalOut_def pow2_as_uint8_def)
  have a: "raises one_failed_call (length (wire ?r))" by (simp add: one_failed_call_def)
  have c: "agrees one_failed_call (length (wire ?r) + (if rtde_isConnected ?r then 2 else 1))
             (reconnect_calls (get_MAJOR_VERSION (controller_version one_failed_call)))"
    by (simp add: one_failed_call_def reconnect_calls_def rtde_isConnected_def)
  have d: "\<not> raises one_failed_call (length (wire ?r5))"
    by (simp add: one_failed_call_def reconnect_calls_def)
  have one: "sendCommand one_failed_call ?cmd ?r =
     Some (Inl Undefined,
       \<lparr>cout = [Msg ''RTDEIOInterface: Lost connection to robot...'',
                Msg ''RTDEIOInterface: Robot is disconnected, reconnecting...''],
        cerr = [What SessionError],
        rtde_conn_state = STARTED,
        wire = (Send ?cmd, False) # (Disconnect, True) # reconnect_calls 5 @
               [(Send ?cmd, True)]\<rparr>)"
    unfolding sendCommand_failed_send [OF a c, of ?cmd] sendCommand_sent [OF d, of ?cmd]
    by (simp add: one_failed_call_def get_MAJOR_VERSION_def rtde_isConnected_def)
  have two: "sendCommand send_and_connect_fail ?cmd ?r =
     Some (Inl SessionError,
       \<lparr>cout = [Msg ''RTDEIOInterface: Lost connection to robot...'',
                Msg ''RTDEIOInterface: Robot is disconnected, reconnecting...''],
        cerr = [What SessionError],
        rtde_conn_state = DISCONNECTED,
        wire = [(Send ?cmd, False), (Disconnect, True), (Connect, False)]\<rparr>)"
    apply (subst sendCommand.simps)
    apply (simp add: send_and_connect_fail_def rtde_send_def rtde_invoke_def
        rtde_isConnected_def rtde_disconnect_def Let_def RTDEIOInterface_reconnect_def
        rtde_connect_def bindE_def)
    done
  show ?thesis unfolding eq one two by simp
qed

section \<open>Results for receiveCallback\<close>

lemma receiveCallback_stopped:
  assumes "stop_thread t"
  shows "receiveCallback e t = Some t"
proof -
  have "t\<lparr>stop_thread := True\<rparr> = t" using assms by (cases t) simp
  then show ?thesis
    using assms by (subst receiveCallback.simps) (simp add: Let_def)
qed

lemma receiveCallback_received:
  assumes "\<not> stop_thread s" "\<not> stop_requested e (length (wire s))"
    "\<not> raises e (length (wire s))"
  shows "receiveCallback e s = receiveCallback e (s\<lparr>wire := wire s @ [(ReceiveData, True)]\<rparr>)"
  using assms
  by (subst receiveCallback.simps) (simp add: Let_def rtde_receiveData_def rtde_invoke_def)

lemma receiveCallback_failed:
  assumes "\<not> stop_thread s" "\<not> stop_requested e (length (wire s))"
    "raises e (length (wire s))"
  shows "receiveCallback e s =
         Some (s\<lparr>cerr := cerr s @ [What SessionError],
                 rtde_conn_state := DISCONNECTED,
                 wire := wire s @ [(ReceiveData, False)] @
                         (if rtde_isConnected s then [(Disconnect, True)] else []),
                 stop_thread := True\<rparr>)"
proof (cases "rtde_isConnected s")
  case True
  let ?s4 = "s\<lparr>cerr := cerr s @ [What SessionError],
                 rtde_conn_state := DISCONNECTED,
                 wire := wire s @ [(ReceiveData, False), (Disconnect, True)],
                 stop_thread := True\<rparr>"
  have "receiveCallback e s = receiveCallback e ?s4"
    using assms True
    by (subst receiveCallback.simps)
      (simp add: Let_def rtde_receiveData_def rtde_invoke_def rtde_isConnected_def
        rtde_disconnect_def)
  then show ?thesis using True by (simp add: receiveCallback_stopped)
next
  case False
  let ?s4 = "s\<lparr>wire := wire s @ [(ReceiveData, False)],
                 cerr := cerr s @ [What SessionError],
                 stop_thread := True\<rparr>"
  have "receiveCallback e s = receiveCallback e ?s4"
    using assms False
    by (subst receiveCallback.simps)
      (simp add: Let_def rtde_receiveData_def rtde_invoke_def rtde_isConnected_def
        rtde_disconnect_def)
  moreover have "?s4 = s\<lparr>cerr := cerr s @ [What SessionError],
                 rtde_conn_state := DISCONNECTED,
                 wire := wire s @ [(ReceiveData, False)],
                 stop_thread := True\<rparr>"
    using False by (cases s) (simp add: rtde_isConnected_def)
  ultimately show ?thesis using False by (simp add: receiveCallback_stopped)
qed

text \<open>
  Claim C8. The receive loop tests the stop flag before every receive. If \<open>k\<close>
  receives have returned and the flag is then found set, the loop ends with exactly
  those \<open>k\<close> receives on the wire and performs no other. If instead receive number
  \<open>k\<close> raises, the loop writes the exception to \<open>std::cerr\<close>, disconnects the
  session when it is connected, so that it is not connected afterwards, sets the flag and
  ends: the failed receive is the last one.
\<close>

theorem receiveCallback_stop_and_error:
  assumes "\<forall>j<k. \<not> (stop_thread s \<or> stop_requested e (length (wire s) + j)) \<and>
                 \<not> raises e (length (wire s) + j)"
    and "(stop_thread s \<or> stop_requested e (length (wire s) + k)) \<or>
         raises e (length (wire s) + k)"
  shows "receiveCallback e s =
         Some (if stop_thread s \<or> stop_requested e (length (wire s) + k)
               then s\<lparr>wire := wire s @ replicate k (ReceiveData, True), stop_thread := True\<rparr>
               else s\<lparr>cerr := cerr s @ [What SessionError],
                       rtde_conn_state := DISCONNECTED,
                       wire := wire s @ replicate k (ReceiveData, True) @ [(ReceiveData, False)] @
                               (if rtde_isConnected s then [(Disconnect, True)] else []),
                       stop_thread := True\<rparr>)"
  using assms
proof (induction k arbitrary: s)
  case 0
  show ?case
  proof (cases "stop_thread s \<or> stop_requested e (length (wire s))")
    case True
    have "receiveCallback e s = Some (s\<lparr>stop_thread := True\<rparr>)"
    proof (cases "stop_thread s")
      case True
      then have "s\<lparr>stop_thread := True\<rparr> = s" by (cases s) simp
      then show ?thesis using True by (simp add: receiveCallback_stopped)
    next
      case False
      then show ?thesis
        using True by (subst receiveCallback.simps) (simp add: Let_def)
    qed
    then show ?thesis using True by simp
  next
    case False
    then show ?thesis
      using "0.prems"(2) receiveCallback_failed [of s e] by simp
  qed
next
  case (Suc k)
  let ?s1 = "s\<lparr>wire := wire s @ [(ReceiveData, True)]\<rparr>"
  have first: "\<not> stop_thread s" "\<not> stop_requested e (length (wire s))"
    "\<not> raises e (length (wire s))"
    using Suc.prems(1) by (auto dest: spec [of _ 0])
  have shift: "length (wire ?s1) + j = length (wire s) + Suc j" for j by simp
  have st: "stop_thread ?s1 = stop_thread s" by simp
  have run: "\<forall>j<k. \<not> (stop_thread ?s1 \<or> stop_requested e (length (wire ?s1) + j)) \<and>
                 \<not> raises e (length (wire ?s1) + j)"
  proof (intro allI impI)
    fix j assume "j < k"
    then have "Suc j < Suc k" by simp
    with Suc.prems(1) show "\<not> (stop_thread ?s1 \<or> stop_requested e (length (wire ?s1) + j)) \<and>
                 \<not> raises e (length (wire ?s1) + j)"
      unfolding shift st by blast
  qed
  have fin: "(stop_thread ?s1 \<or> stop_requested e (length (wire ?s1) + k)) \<or>
         raises e (length (wire ?s1) + k)"
    unfolding shift st by (rule Suc.prems(2))
  note ih = Suc.IH [OF run fin]
  have conn: "rtde_isConnected ?s1 = rtde_isConnected s" by (simp add: rtde_isConnected_def)
  show ?case
    unfolding receiveCallback_received [OF first] ih shift st conn
    by (simp add: replicate_append_same)
qed


text \<open>Two receives return and the third raises on a started session; and two receives
  return before the flag is found set.\<close>

theorem receiveCallback_stop_and_error_witness:
  "\<not> raises third_call_fails 0 \<and> \<not> raises third_call_fails 1 \<and> raises third_call_fails 2 \<and>
   receiveCallback third_call_fails
     \<lparr>cout = [], cerr = [], rtde_conn_state = STARTED, wire = [],
      variables = [], stop_thread = False, threads_started = 1\<rparr> =
   Some \<lparr>cout = [], cerr = [What SessionError], rtde_conn_state = DISCONNECTED,
         wire = [(ReceiveData, True), (ReceiveData, True), (ReceiveData, False),
                 (Disconnect, True)],
         variables = [], stop_thread = True, threads_started = 1\<rparr> \<and>
   stop_requested stop_after_two_calls 2 \<and>
   receiveCallback stop_after_two_calls
     \<lparr>cout = [], cerr = [], rtde_conn_state = STARTED, wire = [],
      variables = [], stop_thread = False, threads_started = 1\<rparr> =
   Some \<lparr>cout = [], cerr = [], rtde_conn_state = STARTED,
         wire = [(ReceiveData, True), (ReceiveData, True)],
         variables = [], stop_thread = True, threads_started = 1\<rparr>"
proof -
  let ?s = "\<lparr>cout = [], cerr = [], rtde_conn_state = STARTED, wire = [],
      variables = [], stop_thread = False, threads_started = 1\<rparr>"
  have a: "\<forall>j<2. \<not> (stop_thread ?s \<or> stop_requested third_call_fails (length (wire ?s) + j)) \<and>
                 \<not> raises third_call_fails (length (wire ?s) + j)"
    by (simp add: third_call_fails_def)
  have b: "(stop_thread ?s \<or> stop_requested third_call_fails (length (wire ?s) + 2)) \<or>
         raises third_call_fails (length (wire ?s) + 2)"
    by (simp add: third_call_fails_def)
  have c: "\<forall>j<2. \<not> (stop_thread ?s \<or> stop_requested stop_after_two_calls (length (wire ?s) + j)) \<and>
                 \<not> raises stop_after_two_calls (length (wire ?s) + j)"
    by (simp add: stop_after_two_calls_def)
  have d: "(stop_thread ?s \<or> stop_requested stop_after_two_calls (length (wire ?s) + 2)) \<or>
         raises stop_after_two_calls (length (wire ?s) + 2)"
    by (simp add: stop_after_two_calls_def)
  show ?thesis
    using receiveCallback_stop_and_error [OF a b] receiveCallback_stop_and_error [OF c d]
    by (simp add: third_call_fails_def stop_after_two_calls_def rtde_isConnected_def
        numeral_2_eq_2)
qed


end
